theory Spec2Isabelle
  imports Complex_Main "HOL-Library.AList" "HOL-Library.Sublist"
begin

section \<open>Python values\<close>

text \<open>
  The plugin \<^verbatim>\<open>yt_dlp_plugins/extractor/youtubeoauth.py\<close> works on untyped JSON data:
  token records, server responses and header values are Python objects. They are
  modelled by one datatype. A \<^verbatim>\<open>dict\<close> is an association list in insertion order
  (its keys are strings, as JSON has them). Numbers are exact reals: the timestamp
  \<^verbatim>\<open>datetime.now().timestamp()\<close> and the sums built from it are taken without
  floating-point rounding.
\<close>

datatype pyval =
    PNone
  | PBool bool
  | PNum real
  | PStr string
  | PList "pyval list"
  | PDict "(string \<times> pyval) list"

text \<open>The exceptions that the modelled code can raise or let through.\<close>

datatype error =
    KeyError string
  | TypeError
  | ValueError
  | AttributeError
  | ExtractorError string
  | RequestError string

text \<open>Truth value testing (\<^verbatim>\<open>if x:\<close>).\<close>

fun truthy :: "pyval \<Rightarrow> bool" where
  "truthy PNone = False"
| "truthy (PBool b) = b"
| "truthy (PNum x) = (x \<noteq> 0)"
| "truthy (PStr s) = (s \<noteq> [])"
| "truthy (PList xs) = (xs \<noteq> [])"
| "truthy (PDict d) = (d \<noteq> [])"

text \<open>The numeric reading of a value in arithmetic and comparisons
  (\<^verbatim>\<open>bool\<close> is a subclass of \<^verbatim>\<open>int\<close>); \<open>None\<close> where Python raises TypeError.\<close>

fun py_num :: "pyval \<Rightarrow> real option" where
  "py_num (PNum x) = Some x"
| "py_num (PBool b) = Some (if b then 1 else 0)"
| "py_num _ = None"

text \<open>\<^verbatim>\<open>obj[key]\<close> with a string key: only a dict can be subscripted by a string.\<close>

fun py_getitem :: "pyval \<Rightarrow> string \<Rightarrow> error + pyval" where
  "py_getitem (PDict d) k = (case map_of d k of None \<Rightarrow> Inl (KeyError k) | Some v \<Rightarrow> Inr v)"
| "py_getitem _ k = Inl TypeError"

text \<open>\<^verbatim>\<open>obj.get(key, default)\<close>.\<close>

fun py_get :: "pyval \<Rightarrow> string \<Rightarrow> pyval \<Rightarrow> error + pyval" where
  "py_get (PDict d) k dflt = (case map_of d k of None \<Rightarrow> Inr dflt | Some v \<Rightarrow> Inr v)"
| "py_get _ k dflt = Inl AttributeError"

text \<open>\<^verbatim>\<open>s.startswith(p)\<close>, \<^verbatim>\<open>s.endswith(p)\<close> and \<^verbatim>\<open>sub in s\<close> on strings.\<close>

fun startswith :: "string \<Rightarrow> string \<Rightarrow> bool" where
  "startswith s [] = True"
| "startswith [] (p # ps) = False"
| "startswith (c # cs) (p # ps) = (c = p \<and> startswith cs ps)"

definition endswith :: "string \<Rightarrow> string \<Rightarrow> bool" where
  "endswith s p = startswith (rev s) (rev p)"

fun str_contains :: "string \<Rightarrow> string \<Rightarrow> bool" where
  "str_contains [] sub = (sub = [])"
| "str_contains (c # cs) sub = (startswith (c # cs) sub \<or> str_contains cs sub)"

text \<open>\<^verbatim>\<open>s.lower()\<close> on ASCII text.\<close>

definition char_lower :: "char \<Rightarrow> char" where
  "char_lower c =
     (if (65::nat) \<le> of_char c \<and> of_char c \<le> (90::nat) then char_of (of_char c + (32::nat)) else c)"

definition lower :: "string \<Rightarrow> string" where
  "lower s = map char_lower s"

text \<open>\<^verbatim>\<open>key in obj\<close> for a string key: key membership in a dict, element membership
  in a list, substring test in a string, TypeError on anything else.\<close>

fun py_in :: "string \<Rightarrow> pyval \<Rightarrow> error + bool" where
  "py_in k (PDict d) = Inr (map_of d k \<noteq> None)"
| "py_in k (PList xs) = Inr (PStr k \<in> set xs)"
| "py_in k (PStr s) = Inr (str_contains s k)"
| "py_in k _ = Inl TypeError"

text \<open>\<^verbatim>\<open>all(key in obj for key in keys)\<close>: the generator is consumed from the left
  and \<^verbatim>\<open>all\<close> stops at the first false element.\<close>

fun all_in :: "string list \<Rightarrow> pyval \<Rightarrow> error + bool" where
  "all_in [] obj = Inr True"
| "all_in (k # ks) obj =
     (case py_in k obj of
        Inl e \<Rightarrow> Inl e
      | Inr b \<Rightarrow> if b then all_in ks obj else Inr False)"

text \<open>\<^verbatim>\<open>d.pop(key, None)\<close> and \<^verbatim>\<open>d.update(other)\<close> on a dict.\<close>

definition dict_pop :: "string \<Rightarrow> (string \<times> 'v) list \<Rightarrow> (string \<times> 'v) list" where
  "dict_pop k d = AList.delete k d"

definition dict_update :: "(string \<times> 'v) list \<Rightarrow> (string \<times> 'v) list \<Rightarrow> (string \<times> 'v) list" where
  "dict_update d other = fold (\<lambda>(k, v). AList.update k v) other d"

text \<open>\<^verbatim>\<open>traverse_obj(obj, key)\<close> of yt-dlp with one string key, as the plugin uses it:
  the value under the key of a dict, \<^verbatim>\<open>None\<close> otherwise.\<close>

fun traverse_obj :: "pyval \<Rightarrow> string \<Rightarrow> pyval" where
  "traverse_obj (PDict d) k = (case map_of d k of None \<Rightarrow> PNone | Some v \<Rightarrow> v)"
| "traverse_obj _ k = PNone"

section \<open>The host: requests, log, cache, clock\<close>

type_synonym header_dict = "(string \<times> pyval) list"

text \<open>A request body: \<open>Encoded v\<close> is the UTF-8 JSON text of \<open>v\<close>
  (\<^verbatim>\<open>json.dumps(v).encode()\<close>), \<open>Raw v\<close> is \<open>v\<close> passed on as it is.\<close>

datatype body = Encoded pyval | Raw pyval

text \<open>What the plugin does to the outside world, in the order it does it.\<close>

datatype event =
    DownloadJson string body header_dict
  | UrlOpen string "string option" header_dict body
  | Sleep real
  | ToScreen string
  | Warning string

text \<open>The mutable state: the log of events so far, the host's token cache, the
  attribute \<^verbatim>\<open>self._TOKEN_DATA\<close> (\<open>PNone\<close> while it is unset, which
  \<^verbatim>\<open>getattr(self, "_TOKEN_DATA", None)\<close> does not tell from \<^verbatim>\<open>None\<close>) and the flag
  \<^verbatim>\<open>self._use_oauth2\<close>.\<close>

record world =
  trace :: "event list"
  cache :: "string \<times> string \<Rightarrow> pyval option"
  TOKEN_DATA :: pyval
  use_oauth2 :: bool

text \<open>The parts of the environment the plugin calls but does not contain.
  \<open>server\<close> answers a request, given the events before it, with the parsed JSON
  body or with the exception the HTTP layer or the JSON parser raises. \<open>now\<close> is
  the clock reading \<^verbatim>\<open>datetime.now(timezone.utc).timestamp()\<close> after the given
  events. \<open>str_of\<close> is Python's \<^verbatim>\<open>str()\<close> on values that are not strings, and
  \<open>netloc_of\<close> is \<^verbatim>\<open>urllib.parse.urlparse(url).netloc\<close>.\<close>

record env =
  server :: "event list \<Rightarrow> event \<Rightarrow> error + pyval"
  now :: "event list \<Rightarrow> real"
  str_of :: "pyval \<Rightarrow> string"
  netloc_of :: "string \<Rightarrow> string"

text \<open>The text an f-string puts in for \<^verbatim>\<open>{v}\<close>.\<close>

definition py_str :: "env \<Rightarrow> pyval \<Rightarrow> string" where
  "py_str E v = (case v of PStr s \<Rightarrow> s | _ \<Rightarrow> str_of E v)"

definition log_event :: "world \<Rightarrow> event \<Rightarrow> world" where
  "log_event w e = w\<lparr>trace := trace w @ [e]\<rparr>"

definition to_screen :: "world \<Rightarrow> string \<Rightarrow> world" where
  "to_screen w msg = log_event w (ToScreen msg)"

definition report_warning :: "world \<Rightarrow> string \<Rightarrow> world" where
  "report_warning w msg = log_event w (Warning msg)"

text \<open>\<^verbatim>\<open>time.sleep(x)\<close>: TypeError unless \<open>x\<close> is a number, ValueError when it is
  negative.\<close>

definition py_sleep :: "world \<Rightarrow> pyval \<Rightarrow> (error + unit) \<times> world" where
  "py_sleep w x =
     (case py_num x of
        None \<Rightarrow> (Inl TypeError, w)
      | Some d \<Rightarrow> if d < 0 then (Inl ValueError, w) else (Inr (), log_event w (Sleep d)))"

text \<open>\<^verbatim>\<open>now + x\<close> and \<^verbatim>\<open>x < t\<close> with a timestamp on one side.\<close>

definition timestamp_plus :: "real \<Rightarrow> pyval \<Rightarrow> error + pyval" where
  "timestamp_plus t x = (case py_num x of None \<Rightarrow> Inl TypeError | Some d \<Rightarrow> Inr (PNum (t + d)))"

definition py_less :: "pyval \<Rightarrow> real \<Rightarrow> error + bool" where
  "py_less x t = (case py_num x of None \<Rightarrow> Inl TypeError | Some d \<Rightarrow> Inr (d < t))"

text \<open>\<^verbatim>\<open>self._download_json(url, video_id="oauth2", note=..., data=..., headers=...)\<close>
  of the host: the call is logged with its URL, body and headers as the plugin
  passes them, and the server's answer is returned or raised. (The host hands the
  request to \<^verbatim>\<open>_create_request\<close> before it sends it; that method is modelled on
  its own further down.)\<close>

definition download_json :: "env \<Rightarrow> world \<Rightarrow> string \<Rightarrow> body \<Rightarrow> header_dict \<Rightarrow> (error + pyval) \<times> world" where
  "download_json E w u b h =
     (server E (trace w) (DownloadJson u b h), log_event w (DownloadJson u b h))"

section \<open>The plugin\<close>

definition CLIENT_ID :: string where
  "CLIENT_ID = ''861556708454-d6dlm3lh05idd8npek18k6be8ba3oc68.apps.googleusercontent.com''"

definition CLIENT_SECRET :: string where
  "CLIENT_SECRET = ''SboVhoG9s0rNafixCSGGKXAT''"

text \<open>\<^verbatim>\<open>_execute_request(url, method, headers, data)\<close>, lines 35 to 47. The response
  object it returns is represented by the JSON value its body parses to at the
  caller's \<^verbatim>\<open>json.loads(response.read())\<close>; a failure of \<^verbatim>\<open>urlopen\<close> or of the parse
  is the server's \<open>Inl\<close>.\<close>

definition execute_request ::
  "env \<Rightarrow> world \<Rightarrow> string \<Rightarrow> string option \<Rightarrow> header_dict option \<Rightarrow> pyval \<Rightarrow> (error + pyval) \<times> world" where
  "execute_request E w u method hdrs data =
     (let base_headers = [(''User-Agent'', PStr ''Mozilla/5.0''), (''accept-language'', PStr ''en-US,en'')];
          base_headers = (case hdrs of
                            None \<Rightarrow> base_headers
                          | Some h \<Rightarrow> if h \<noteq> [] then dict_update base_headers h else base_headers);
          data = (if truthy data then Encoded data else Raw data)
      in if startswith (lower u) ''http''
         then (server E (trace w) (UrlOpen u method base_headers data),
               log_event w (UrlOpen u method base_headers data))
         else (Inl ValueError, w))"

text \<open>\<^verbatim>\<open>store_token\<close> and \<^verbatim>\<open>get_token\<close>, lines 71 to 78.\<close>

definition store_token :: "world \<Rightarrow> pyval \<Rightarrow> world" where
  "store_token w token_data =
     w\<lparr>cache := (cache w)((''youtube-oauth2'', ''token_data'') \<mapsto> token_data),
       TOKEN_DATA := token_data\<rparr>"

definition cache_load :: "world \<Rightarrow> string \<Rightarrow> string \<Rightarrow> pyval" where
  "cache_load w section key = (case cache w (section, key) of None \<Rightarrow> PNone | Some v \<Rightarrow> v)"

definition get_token :: "world \<Rightarrow> pyval \<times> world" where
  "get_token w =
     (if \<not> truthy (TOKEN_DATA w)
      then (cache_load w ''youtube-oauth2'' ''token_data'',
            w\<lparr>TOKEN_DATA := cache_load w ''youtube-oauth2'' ''token_data''\<rparr>)
      else (TOKEN_DATA w, w))"

text \<open>\<^verbatim>\<open>validate_token_data\<close>, lines 80 to 84.\<close>

definition validate_token_data :: "pyval \<Rightarrow> error + bool" where
  "validate_token_data token_data =
     all_in [''access_token'', ''expires'', ''refresh_token'', ''token_type''] token_data"

text \<open>\<^verbatim>\<open>authorize\<close>, lines 162 to 225, in three parts. The first is the straight
  code before the loop (lines 163 to 188): the device-code request, the two
  messages and the first sleep; it returns \<^verbatim>\<open>response_data\<close>.\<close>

definition request_device_code :: "env \<Rightarrow> world \<Rightarrow> (error + pyval) \<times> world" where
  "request_device_code E w =
     (case download_json E w ''https://oauth2.googleapis.com/device/code''
             (Encoded (PDict [(''client_id'', PStr CLIENT_ID),
                              (''scope'', PStr ''https://www.googleapis.com/auth/youtube'')]))
             [(''Content-Type'', PStr ''application/json''),
              (''User-Agent'', PStr ''Mozilla/5.0''),
              (''Accept'', PStr ''application/json''),
              (''Accept-Language'', PStr ''en-US,en;q=0.9''),
              (''If-Match'', PStr ''*'')] of
        (Inl e, w1) \<Rightarrow> (Inl e, w1)
      | (Inr response_data, w1) \<Rightarrow>
     (case py_getitem response_data ''verification_url'' of
        Inl e \<Rightarrow> (Inl e, w1)
      | Inr verification_url \<Rightarrow>
     (case py_getitem response_data ''user_code'' of
        Inl e \<Rightarrow> (Inl e, w1)
      | Inr user_code \<Rightarrow>
     (case py_getitem response_data ''interval'' of
        Inl e \<Rightarrow>
          (Inl e, to_screen w1
            (''To give yt-dlp access to your account, go to  '' @ py_str E verification_url
              @ ''  and enter code  '' @ py_str E user_code))
      | Inr interval \<Rightarrow>
     (case py_sleep
             (to_screen
               (to_screen w1
                 (''To give yt-dlp access to your account, go to  '' @ py_str E verification_url
                   @ ''  and enter code  '' @ py_str E user_code))
               (''Sleeping for '' @ py_str E interval))
             interval of
        (Inl e, w2) \<Rightarrow> (Inl e, w2)
      | (Inr u, w2) \<Rightarrow> (Inr response_data, w2))))))"

text \<open>The record that \<^verbatim>\<open>authorize\<close> returns (the dict display of lines 219 to 225),
  from the clock reading and the token response; its items are evaluated in the
  order they are written.\<close>

definition authorize_record :: "real \<Rightarrow> pyval \<Rightarrow> error + pyval" where
  "authorize_record t token_response =
     (case py_getitem token_response ''access_token'' of
        Inl e \<Rightarrow> Inl e
      | Inr access_token \<Rightarrow>
     (case py_getitem token_response ''expires_in'' of
        Inl e \<Rightarrow> Inl e
      | Inr expires_in \<Rightarrow>
     (case timestamp_plus t expires_in of
        Inl e \<Rightarrow> Inl e
      | Inr expires \<Rightarrow>
     (case py_getitem token_response ''refresh_token'' of
        Inl e \<Rightarrow> Inl e
      | Inr new_refresh_token \<Rightarrow>
     (case py_getitem token_response ''token_type'' of
        Inl e \<Rightarrow> Inl e
      | Inr token_type \<Rightarrow>
          Inr (PDict [(''access_token'', access_token),
                      (''expires'', expires),
                      (''refresh_token'', new_refresh_token),
                      (''token_type'', token_type)]))))))"

text \<open>The second part is one iteration of \<^verbatim>\<open>while True\<close> (lines 190 to 225). It
  ends in one of three ways besides an exception: \<^verbatim>\<open>continue\<close> after the sleep,
  \<^verbatim>\<open>return self.authorize()\<close>, or the return of the token record.\<close>

datatype poll_outcome = Continue | Restart | Return pyval

definition poll_token :: "env \<Rightarrow> pyval \<Rightarrow> world \<Rightarrow> (error + poll_outcome) \<times> world" where
  "poll_token E response_data w =
     (case py_getitem response_data ''device_code'' of
        Inl e \<Rightarrow> (Inl e, w)
      | Inr device_code \<Rightarrow>
     (case execute_request E w ''https://oauth2.googleapis.com/token'' (Some ''POST'')
             (Some [(''Content-Type'', PStr ''application/json'')])
             (PDict [(''client_id'', PStr CLIENT_ID),
                     (''client_secret'', PStr CLIENT_SECRET),
                     (''device_code'', device_code),
                     (''grant_type'', PStr ''urn:ietf:params:oauth:grant-type:device_code'')]) of
        (Inl e, w1) \<Rightarrow> (Inl e, w1)
      | (Inr token_response, w1) \<Rightarrow>
          let err = traverse_obj token_response ''error'';
              w2 = to_screen (to_screen w1 ''\<newline>\<newline>'') (py_str E token_response)
          in
            if truthy err then
              if err = PStr ''authorization_pending'' then
                (case py_getitem response_data ''interval'' of
                   Inl e \<Rightarrow> (Inl e, w2)
                 | Inr interval \<Rightarrow>
                (case py_sleep w2 interval of
                   (Inl e, w3) \<Rightarrow> (Inl e, w3)
                 | (Inr u, w3) \<Rightarrow> (Inr Continue, w3)))
              else if err = PStr ''expired_token'' then
                (Inr Restart,
                 report_warning w2 ''The device code has expired, restarting authorization flow'')
              else (Inl (ExtractorError (''Unhandled OAuth2 Error: '' @ py_str E err)), w2)
            else
              (case authorize_record
                      (now E (trace (to_screen w2 ''Authorization successful'')))
                      token_response of
                 Inl e \<Rightarrow> (Inl e, to_screen w2 ''Authorization successful'')
               | Inr token_data \<Rightarrow>
                   (Inr (Return token_data), to_screen w2 ''Authorization successful''))))"

text \<open>The third part is the control flow. The loop may run forever (a server that
  keeps answering \<^verbatim>\<open>authorization_pending\<close>), and an expired device code makes
  \<^verbatim>\<open>authorize\<close> call itself, so both take fuel: one unit for every call of
  \<^verbatim>\<open>authorize\<close> and for every iteration of the loop. \<open>None\<close> says that the fuel ran
  out before the call returned.\<close>

fun authorize :: "nat \<Rightarrow> env \<Rightarrow> world \<Rightarrow> ((error + pyval) \<times> world) option"
  and authorize_poll :: "nat \<Rightarrow> env \<Rightarrow> pyval \<Rightarrow> world \<Rightarrow> ((error + pyval) \<times> world) option"
where
  "authorize 0 E w = None"
| "authorize (Suc n) E w =
     (case request_device_code E w of
        (Inl e, w1) \<Rightarrow> Some (Inl e, w1)
      | (Inr response_data, w1) \<Rightarrow> authorize_poll n E response_data w1)"
| "authorize_poll 0 E response_data w = None"
| "authorize_poll (Suc n) E response_data w =
     (case poll_token E response_data w of
        (Inl e, w1) \<Rightarrow> Some (Inl e, w1)
      | (Inr Continue, w1) \<Rightarrow> authorize_poll n E response_data w1
      | (Inr Restart, w1) \<Rightarrow> authorize n E w1
      | (Inr (Return token_data), w1) \<Rightarrow> Some (Inr token_data, w1))"

text \<open>\<^verbatim>\<open>refresh_token\<close>, lines 132 to 160. First the record it returns (the dict
  display of lines 154 to 160), from the clock reading, the token response and the
  refresh token it was called with.\<close>

definition refresh_record :: "real \<Rightarrow> pyval \<Rightarrow> pyval \<Rightarrow> error + pyval" where
  "refresh_record t token_response refresh_token_arg =
     (case py_getitem token_response ''access_token'' of
        Inl e \<Rightarrow> Inl e
      | Inr access_token \<Rightarrow>
     (case py_getitem token_response ''expires_in'' of
        Inl e \<Rightarrow> Inl e
      | Inr expires_in \<Rightarrow>
     (case timestamp_plus t expires_in of
        Inl e \<Rightarrow> Inl e
      | Inr expires \<Rightarrow>
     (case py_getitem token_response ''token_type'' of
        Inl e \<Rightarrow> Inl e
      | Inr token_type \<Rightarrow>
     (case py_get token_response ''refresh_token'' refresh_token_arg of
        Inl e \<Rightarrow> Inl e
      | Inr new_refresh_token \<Rightarrow>
          Inr (PDict [(''access_token'', access_token),
                      (''expires'', expires),
                      (''token_type'', token_type),
                      (''refresh_token'', new_refresh_token)]))))))"

definition refresh_token :: "nat \<Rightarrow> env \<Rightarrow> world \<Rightarrow> pyval \<Rightarrow> ((error + pyval) \<times> world) option" where
  "refresh_token n E w refresh_token_arg =
     (case download_json E w ''https://www.youtube.com/o/oauth2/token''
             (Encoded (PDict [(''client_id'', PStr CLIENT_ID),
                              (''client_secret'', PStr CLIENT_SECRET),
                              (''refresh_token'', refresh_token_arg),
                              (''grant_type'', PStr ''refresh_token'')]))
             [(''Content-Type'', PStr ''application/json''),
              (''__youtube_oauth__'', PBool True)] of
        (Inl e, w1) \<Rightarrow> Some (Inl e, w1)
      | (Inr token_response, w1) \<Rightarrow>
          let err = traverse_obj token_response ''error'' in
            if truthy err then
              authorize n E
                (report_warning w1
                  (''Failed to refresh access token: '' @ py_str E err
                    @ ''. Restarting authorization flow''))
            else
              (case refresh_record (now E (trace w1)) token_response refresh_token_arg of
                 Inl e \<Rightarrow> Some (Inl e, w1)
               | Inr token_data \<Rightarrow> Some (Inr token_data, w1)))"

text \<open>\<^verbatim>\<open>initialize_oauth\<close>, lines 86 to 105, in its three steps: the check of the
  cached record (lines 89 to 91), the authorization when there is none (lines 93 to
  95), the refresh when it expires within 60 seconds (lines 97 to 103).\<close>

definition check_cached :: "world \<Rightarrow> pyval \<Rightarrow> (error + pyval) \<times> world" where
  "check_cached w token_data =
     (if truthy token_data then
        (case validate_token_data token_data of
           Inl e \<Rightarrow> (Inl e, w)
         | Inr valid \<Rightarrow>
             if \<not> valid then (Inr PNone, report_warning w ''Invalid cached OAuth2 token data'')
             else (Inr token_data, w))
      else (Inr token_data, w))"

definition authorize_if_missing :: "nat \<Rightarrow> env \<Rightarrow> world \<Rightarrow> pyval \<Rightarrow> ((error + pyval) \<times> world) option" where
  "authorize_if_missing n E w token_data =
     (if \<not> truthy token_data then
        (case authorize n E w of
           None \<Rightarrow> None
         | Some (Inl e, w1) \<Rightarrow> Some (Inl e, w1)
         | Some (Inr new_token_data, w1) \<Rightarrow> Some (Inr new_token_data, store_token w1 new_token_data))
      else Some (Inr token_data, w))"

definition refresh_if_expiring :: "nat \<Rightarrow> env \<Rightarrow> world \<Rightarrow> pyval \<Rightarrow> ((error + pyval) \<times> world) option" where
  "refresh_if_expiring n E w token_data =
     (case py_getitem token_data ''expires'' of
        Inl e \<Rightarrow> Some (Inl e, w)
      | Inr expires \<Rightarrow>
     (case py_less expires (now E (trace w) + 60) of
        Inl e \<Rightarrow> Some (Inl e, w)
      | Inr expiring \<Rightarrow>
          if expiring then
            (case py_getitem token_data ''refresh_token'' of
               Inl e \<Rightarrow> Some (Inl e, to_screen w ''Access token expired, refreshing'')
             | Inr rt \<Rightarrow>
            (case refresh_token n E (to_screen w ''Access token expired, refreshing'') rt of
               None \<Rightarrow> None
             | Some (Inl e, w1) \<Rightarrow> Some (Inl e, w1)
             | Some (Inr new_token_data, w1) \<Rightarrow> Some (Inr new_token_data, store_token w1 new_token_data)))
          else Some (Inr token_data, w)))"

definition initialize_oauth :: "nat \<Rightarrow> env \<Rightarrow> world \<Rightarrow> ((error + pyval) \<times> world) option" where
  "initialize_oauth n E w =
     (case check_cached (snd (get_token w)) (fst (get_token w)) of
        (Inl e, w1) \<Rightarrow> Some (Inl e, w1)
      | (Inr token_data, w1) \<Rightarrow>
     (case authorize_if_missing n E w1 token_data of
        None \<Rightarrow> None
      | Some (Inl e, w2) \<Rightarrow> Some (Inl e, w2)
      | Some (Inr token_data, w2) \<Rightarrow> refresh_if_expiring n E w2 token_data))"

text \<open>An outgoing request of the host (\<^verbatim>\<open>yt_dlp.networking.Request\<close>): its URL and
  its header mapping, keyed by header name.\<close>

record request =
  url :: string
  headers :: header_dict

text \<open>\<^verbatim>\<open>handle_oauth\<close>, lines 107 to 130. The request is changed in place, so it is
  returned beside the world, also when an exception ends the call.\<close>

definition handle_oauth :: "nat \<Rightarrow> env \<Rightarrow> world \<Rightarrow> request \<Rightarrow> ((error + unit) \<times> request \<times> world) option" where
  "handle_oauth n E w req =
     (if \<not> endswith (netloc_of E (url req)) ''youtube.com'' then Some (Inr (), req, w)
      else
        (case initialize_oauth n E w of
           None \<Rightarrow> None
         | Some (Inl e, w1) \<Rightarrow> Some (Inl e, req, w1)
         | Some (Inr token_data, w1) \<Rightarrow>
             let h1 = dict_pop ''X-Goog-AuthUser'' (dict_pop ''X-Goog-PageId'' (headers req));
                 w2 = (if map_of h1 ''Authorization'' \<noteq> None
                       then report_warning w1
                              (''Youtube cookies have been provided, but OAuth2 is being used.''
                                @ '' If you encounter problems, stop providing Youtube cookies to yt-dlp.'')
                       else w1);
                 h2 = (if map_of h1 ''Authorization'' \<noteq> None
                       then dict_pop ''X-Origin'' (dict_pop ''Authorization'' h1)
                       else h1);
                 h3 = dict_pop ''X-Youtube-Identity-Token'' h2
             in
               (case py_getitem token_data ''token_type'' of
                  Inl e \<Rightarrow> Some (Inl e, req\<lparr>headers := h3\<rparr>, w2)
                | Inr token_type \<Rightarrow>
               (case py_getitem token_data ''access_token'' of
                  Inl e \<Rightarrow> Some (Inl e, req\<lparr>headers := h3\<rparr>, w2)
                | Inr access_token \<Rightarrow>
                    Some (Inr (),
                          req\<lparr>headers := dict_update h3
                                [(''Authorization'',
                                  PStr (py_str E token_type @ '' '' @ py_str E access_token))]\<rparr>,
                          w2)))))"

text \<open>\<^verbatim>\<open>_YouTubeOAuth._create_request\<close>, lines 320 to 326, applied to the request
  that the extractor's own \<^verbatim>\<open>_create_request\<close> has built.\<close>

definition create_request :: "nat \<Rightarrow> env \<Rightarrow> world \<Rightarrow> request \<Rightarrow> ((error + request) \<times> world) option" where
  "create_request n E w req =
     (if map_of (headers req) ''__youtube_oauth__'' \<noteq> None
      then Some (Inr (req\<lparr>headers := dict_pop ''__youtube_oauth__'' (headers req)\<rparr>), w)
      else if use_oauth2 w then
        (case handle_oauth n E w req of
           None \<Rightarrow> None
         | Some (Inl e, req1, w1) \<Rightarrow> Some (Inl e, w1)
         | Some (Inr u, req1, w1) \<Rightarrow> Some (Inr req1, w1))
      else Some (Inr req, w))"

section \<open>Observations and scenarios\<close>

text \<open>The requests of the plugin, as they appear in the log: the device-code request
  of \<^verbatim>\<open>authorize\<close>, one poll of the token endpoint, the request of \<^verbatim>\<open>refresh_token\<close>.\<close>

definition device_code_request :: event where
  "device_code_request =
     DownloadJson ''https://oauth2.googleapis.com/device/code''
       (Encoded (PDict [(''client_id'', PStr CLIENT_ID),
                        (''scope'', PStr ''https://www.googleapis.com/auth/youtube'')]))
       [(''Content-Type'', PStr ''application/json''),
        (''User-Agent'', PStr ''Mozilla/5.0''),
        (''Accept'', PStr ''application/json''),
        (''Accept-Language'', PStr ''en-US,en;q=0.9''),
        (''If-Match'', PStr ''*'')]"

definition poll_request :: "pyval \<Rightarrow> event" where
  "poll_request device_code =
     UrlOpen ''https://oauth2.googleapis.com/token'' (Some ''POST'')
       [(''User-Agent'', PStr ''Mozilla/5.0''),
        (''accept-language'', PStr ''en-US,en''),
        (''Content-Type'', PStr ''application/json'')]
       (Encoded (PDict [(''client_id'', PStr CLIENT_ID),
                        (''client_secret'', PStr CLIENT_SECRET),
                        (''device_code'', device_code),
                        (''grant_type'', PStr ''urn:ietf:params:oauth:grant-type:device_code'')]))"

definition refresh_request :: "pyval \<Rightarrow> event" where
  "refresh_request rt =
     DownloadJson ''https://www.youtube.com/o/oauth2/token''
       (Encoded (PDict [(''client_id'', PStr CLIENT_ID),
                        (''client_secret'', PStr CLIENT_SECRET),
                        (''refresh_token'', rt),
                        (''grant_type'', PStr ''refresh_token'')]))
       [(''Content-Type'', PStr ''application/json''),
        (''__youtube_oauth__'', PBool True)]"

text \<open>The URL of a request event, the requests of a log that go to one URL, and the
  sleeps of a log.\<close>

fun event_url :: "event \<Rightarrow> string option" where
  "event_url (DownloadJson u b h) = Some u"
| "event_url (UrlOpen u m h b) = Some u"
| "event_url _ = None"

definition requests_to :: "string \<Rightarrow> event list \<Rightarrow> event list" where
  "requests_to u t = filter (\<lambda>e. event_url e = Some u) t"

fun sleeps :: "event list \<Rightarrow> real list" where
  "sleeps [] = []"
| "sleeps (Sleep d # t) = d # sleeps t"
| "sleeps (e # t) = sleeps t"

fun warnings :: "event list \<Rightarrow> string list" where
  "warnings [] = []"
| "warnings (Warning m # t) = m # warnings t"
| "warnings (e # t) = warnings t"

text \<open>A mock server: it answers the k-th request to a URL with the k-th entry of
  that URL's script, and fails when the script has no entry left.\<close>

fun nth_response :: "(error + pyval) list \<Rightarrow> nat \<Rightarrow> error + pyval" where
  "nth_response [] k = Inl (RequestError ''no response left'')"
| "nth_response (r # rs) 0 = r"
| "nth_response (r # rs) (Suc k) = nth_response rs k"

definition scripted :: "(string \<Rightarrow> (error + pyval) list) \<Rightarrow> event list \<Rightarrow> event \<Rightarrow> error + pyval" where
  "scripted script t req =
     (case event_url req of
        None \<Rightarrow> Inl (RequestError ''not a request'')
      | Some u \<Rightarrow> nth_response (script u) (length (requests_to u t)))"

text \<open>A token record that has the four fields and a numeric \<^verbatim>\<open>expires\<close> not below
  a given time.\<close>

definition good_record :: "real \<Rightarrow> pyval \<Rightarrow> bool" where
  "good_record lo r =
     (case r of
        PDict d \<Rightarrow>
          map_of d ''access_token'' \<noteq> None \<and> map_of d ''refresh_token'' \<noteq> None \<and>
          map_of d ''token_type'' \<noteq> None \<and>
          (case map_of d ''expires'' of
             None \<Rightarrow> False
           | Some x \<Rightarrow> (case py_num x of None \<Rightarrow> False | Some e \<Rightarrow> lo \<le> e))
      | _ \<Rightarrow> False)"

text \<open>A clock that never runs backwards, and a server whose token responses are
  well formed and live for at least 60 seconds.\<close>

definition mono_clock :: "env \<Rightarrow> bool" where
  "mono_clock E = (\<forall>t t'. now E t \<le> now E (t @ t'))"

definition fresh_tokens :: "env \<Rightarrow> bool" where
  "fresh_tokens E =
     (\<forall>t req d x. server E t req = Inr (PDict d) \<longrightarrow> map_of d ''access_token'' \<noteq> None \<longrightarrow>
        map_of d ''expires_in'' = Some x \<longrightarrow> (\<exists>secs. py_num x = Some secs \<and> 60 \<le> secs))"

text \<open>A property of the result and the final state of a step.\<close>

definition holds :: "('a \<Rightarrow> world \<Rightarrow> bool) \<Rightarrow> 'a \<times> world \<Rightarrow> bool" where
  "holds P x = P (fst x) (snd x)"

text \<open>The log of \<open>w'\<close> extends the log of \<open>w\<close> by events that are not refresh
  requests.\<close>

definition quiet :: "world \<Rightarrow> world \<Rightarrow> bool" where
  "quiet w w' =
     (prefix (trace w) (trace w') \<and>
      requests_to ''https://www.youtube.com/o/oauth2/token'' (trace w') =
      requests_to ''https://www.youtube.com/o/oauth2/token'' (trace w))"

text \<open>The result and the final log of a call that takes fuel.\<close>

definition result_of :: "('a \<times> world) option \<Rightarrow> 'a option" where
  "result_of x = map_option fst x"

definition trace_of :: "('a \<times> world) option \<Rightarrow> event list" where
  "trace_of x = (case x of None \<Rightarrow> [] | Some rw \<Rightarrow> trace (snd rw))"

text \<open>What a step leaves in the log, by kind of event.\<close>

definition adds :: "world \<Rightarrow> world \<Rightarrow> event list \<Rightarrow> event list \<Rightarrow> real list \<Rightarrow> string list \<Rightarrow> bool" where
  "adds w w' dev polls sl warns =
     (requests_to ''https://oauth2.googleapis.com/device/code'' (trace w') =
        requests_to ''https://oauth2.googleapis.com/device/code'' (trace w) @ dev \<and>
      requests_to ''https://oauth2.googleapis.com/token'' (trace w') =
        requests_to ''https://oauth2.googleapis.com/token'' (trace w) @ polls \<and>
      sleeps (trace w') = sleeps (trace w) @ sl \<and>
      warnings (trace w') = warnings (trace w) @ warns)"

section \<open>Concrete runs\<close>

text \<open>A mock environment for the runs below: the server follows three scripts (one
  for the device-code endpoint, one for the token endpoint polled by \<^verbatim>\<open>authorize\<close>,
  one for the endpoint of \<^verbatim>\<open>refresh_token\<close>), the clock starts at 1000 and ticks
  once for every event, \<^verbatim>\<open>str()\<close> of a value that is not a string is a fixed
  text, and the network location is read off an \<^verbatim>\<open>https://\<close> URL up to its
  first slash.\<close>

definition script_of ::
  "(error + pyval) list \<Rightarrow> (error + pyval) list \<Rightarrow> (error + pyval) list \<Rightarrow> string \<Rightarrow> (error + pyval) list" where
  "script_of device polls refreshes u =
     (if u = ''https://oauth2.googleapis.com/device/code'' then device
      else if u = ''https://oauth2.googleapis.com/token'' then polls
      else if u = ''https://www.youtube.com/o/oauth2/token'' then refreshes
      else [])"

definition mock_env :: "(string \<Rightarrow> (error + pyval) list) \<Rightarrow> env" where
  "mock_env script =
     \<lparr>server = scripted script,
      now = (\<lambda>t. 1000 + real (length t)),
      str_of = (\<lambda>v. ''<object>''),
      netloc_of = (\<lambda>u. takeWhile (\<lambda>c. c \<noteq> CHR ''/'') (drop 8 u))\<rparr>"

definition empty_world :: world where
  "empty_world = \<lparr>trace = [], cache = Map.empty, TOKEN_DATA = PNone, use_oauth2 = True\<rparr>"

definition device_response :: pyval where
  "device_response =
     PDict [(''device_code'', PStr ''DEV-1''),
            (''user_code'', PStr ''ABCD-EFGH''),
            (''verification_url'', PStr ''https://www.google.com/device''),
            (''interval'', PNum 5),
            (''expires_in'', PNum 1800)]"

definition error_response :: "string \<Rightarrow> pyval" where
  "error_response code = PDict [(''error'', PStr code)]"

definition token_response_ok :: pyval where
  "token_response_ok =
     PDict [(''access_token'', PStr ''AT-1''),
            (''expires_in'', PNum 3599),
            (''refresh_token'', PStr ''RT-1''),
            (''token_type'', PStr ''Bearer'')]"

definition refresh_response_ok :: pyval where
  "refresh_response_ok =
     PDict [(''access_token'', PStr ''AT-2''),
            (''expires_in'', PNum 3599),
            (''token_type'', PStr ''Bearer'')]"

definition refresh_response_with_error :: "pyval \<Rightarrow> pyval" where
  "refresh_response_with_error err =
     PDict [(''error'', err),
            (''access_token'', PStr ''AT-2''),
            (''expires_in'', PNum 3599),
            (''token_type'', PStr ''Bearer'')]"

definition stored_record :: "real \<Rightarrow> pyval" where
  "stored_record e =
     PDict [(''access_token'', PStr ''AT-0''),
            (''expires'', PNum e),
            (''refresh_token'', PStr ''RT-0''),
            (''token_type'', PStr ''Bearer'')]"

definition cached_world :: "pyval \<Rightarrow> world" where
  "cached_world token_data =
     \<lparr>trace = [], cache = [(''youtube-oauth2'', ''token_data'') \<mapsto> token_data],
      TOKEN_DATA = PNone, use_oauth2 = True\<rparr>"

definition cookie_request :: "string \<Rightarrow> request" where
  "cookie_request u =
     \<lparr>url = u,
      headers = [(''User-Agent'', PStr ''Mozilla/5.0''),
                 (''X-Goog-PageId'', PStr ''12345''),
                 (''Authorization'', PStr ''SAPISIDHASH 1_abc''),
                 (''X-Goog-AuthUser'', PStr ''0''),
                 (''X-Origin'', PStr ''https://www.youtube.com''),
                 (''X-Youtube-Identity-Token'', PStr ''idtoken'')]\<rparr>"

section \<open>Basic facts\<close>

lemma lower_http: "startswith (lower ''https://oauth2.googleapis.com/token'') ''http''"
  by (simp add: lower_def char_lower_def)

lemma trace_log_event [simp]: "trace (log_event w e) = trace w @ [e]"
  by (simp add: log_event_def)

lemma trace_to_screen [simp]: "trace (to_screen w m) = trace w @ [ToScreen m]"
  by (simp add: to_screen_def)

lemma trace_report_warning [simp]: "trace (report_warning w m) = trace w @ [Warning m]"
  by (simp add: report_warning_def)

lemma sleeps_append [simp]: "sleeps (t @ t') = sleeps t @ sleeps t'"
  by (induction t rule: sleeps.induct) simp_all

lemma warnings_append [simp]: "warnings (t @ t') = warnings t @ warnings t'"
  by (induction t rule: warnings.induct) simp_all

lemma requests_to_append [simp]: "requests_to u (t @ t') = requests_to u t @ requests_to u t'"
  by (simp add: requests_to_def)

lemma requests_to_Nil [simp]: "requests_to u [] = []"
  by (simp add: requests_to_def)

lemma requests_to_Cons:
  "requests_to u (e # t) = (if event_url e = Some u then e # requests_to u t else requests_to u t)"
  by (simp add: requests_to_def)

lemma py_getitem_Inr: "py_getitem v k = Inr x \<Longrightarrow> \<exists>d. v = PDict d \<and> map_of d k = Some x"
  by (cases v) (auto split: option.splits)

lemma py_str_PStr [simp]: "py_str E (PStr s) = s"
  by (simp add: py_str_def)

lemma download_json_eq:
  "download_json E w u b h = (server E (trace w) (DownloadJson u b h), log_event w (DownloadJson u b h))"
  by (simp add: download_json_def)

lemma execute_request_poll:
  "execute_request E w ''https://oauth2.googleapis.com/token'' (Some ''POST'')
     (Some [(''Content-Type'', PStr ''application/json'')])
     (PDict [(''client_id'', PStr CLIENT_ID),
             (''client_secret'', PStr CLIENT_SECRET),
             (''device_code'', device_code),
             (''grant_type'', PStr ''urn:ietf:params:oauth:grant-type:device_code'')])
   = (server E (trace w) (poll_request device_code), log_event w (poll_request device_code))"
  by (simp add: execute_request_def poll_request_def lower_http dict_update_def Let_def)

section \<open>One poll of the token endpoint\<close>

lemma poll_token_response:
  assumes "py_getitem response_data ''device_code'' = Inr device_code"
      and "server E (trace w) (poll_request device_code) = Inr token_response"
  shows "poll_token E response_data w =
     (let err = traverse_obj token_response ''error'';
          w2 = to_screen (to_screen (log_event w (poll_request device_code)) ''\<newline>\<newline>'')
                 (py_str E token_response)
      in
        if truthy err then
          if err = PStr ''authorization_pending'' then
            (case py_getitem response_data ''interval'' of
               Inl e \<Rightarrow> (Inl e, w2)
             | Inr interval \<Rightarrow>
            (case py_sleep w2 interval of
               (Inl e, w3) \<Rightarrow> (Inl e, w3)
             | (Inr u, w3) \<Rightarrow> (Inr Continue, w3)))
          else if err = PStr ''expired_token'' then
            (Inr Restart,
             report_warning w2 ''The device code has expired, restarting authorization flow'')
          else (Inl (ExtractorError (''Unhandled OAuth2 Error: '' @ py_str E err)), w2)
        else
          (case authorize_record
                  (now E (trace (to_screen w2 ''Authorization successful'')))
                  token_response of
             Inl e \<Rightarrow> (Inl e, to_screen w2 ''Authorization successful'')
           | Inr token_data \<Rightarrow>
               (Inr (Return token_data), to_screen w2 ''Authorization successful'')))"
  unfolding poll_token_def execute_request_poll using assms by simp

lemma poll_token_pending:
  assumes "py_getitem response_data ''device_code'' = Inr device_code"
      and "server E (trace w) (poll_request device_code) = Inr token_response"
      and "traverse_obj token_response ''error'' = PStr ''authorization_pending''"
      and "py_getitem response_data ''interval'' = Inr interval"
      and "py_num interval = Some d" and "0 \<le> d"
  shows "poll_token E response_data w =
     (Inr Continue,
      log_event
        (to_screen (to_screen (log_event w (poll_request device_code)) ''\<newline>\<newline>'')
          (py_str E token_response))
        (Sleep d))"
  using assms by (simp add: poll_token_response py_sleep_def)

lemma poll_token_expired:
  assumes "py_getitem response_data ''device_code'' = Inr device_code"
      and "server E (trace w) (poll_request device_code) = Inr token_response"
      and "traverse_obj token_response ''error'' = PStr ''expired_token''"
  shows "poll_token E response_data w =
     (Inr Restart,
      report_warning
        (to_screen (to_screen (log_event w (poll_request device_code)) ''\<newline>\<newline>'')
          (py_str E token_response))
        ''The device code has expired, restarting authorization flow'')"
  using assms by (simp add: poll_token_response)

lemma poll_token_unhandled:
  assumes "py_getitem response_data ''device_code'' = Inr device_code"
      and "server E (trace w) (poll_request device_code) = Inr token_response"
      and "traverse_obj token_response ''error'' = err"
      and "truthy err" and "err \<noteq> PStr ''authorization_pending''" and "err \<noteq> PStr ''expired_token''"
  shows "poll_token E response_data w =
     (Inl (ExtractorError (''Unhandled OAuth2 Error: '' @ py_str E err)),
      to_screen (to_screen (log_event w (poll_request device_code)) ''\<newline>\<newline>'')
        (py_str E token_response))"
  using assms by (simp add: poll_token_response)

lemma poll_token_success:
  assumes "py_getitem response_data ''device_code'' = Inr device_code"
      and "server E (trace w) (poll_request device_code) = Inr token_response"
      and "\<not> truthy (traverse_obj token_response ''error'')"
      and "w3 = to_screen
                 (to_screen (to_screen (log_event w (poll_request device_code)) ''\<newline>\<newline>'')
                   (py_str E token_response))
                 ''Authorization successful''"
      and "authorize_record (now E (trace w3)) token_response = Inr token_data"
  shows "poll_token E response_data w = (Inr (Return token_data), w3)"
  using assms by (simp add: poll_token_response)

section \<open>The device-code request\<close>

lemma request_device_code_ok:
  assumes "server E (trace w) device_code_request = Inr response_data"
      and "py_getitem response_data ''verification_url'' = Inr verification_url"
      and "py_getitem response_data ''user_code'' = Inr user_code"
      and "py_getitem response_data ''interval'' = Inr interval"
      and "py_num interval = Some d" and "0 \<le> d"
  shows "request_device_code E w =
     (Inr response_data,
      log_event
        (to_screen
          (to_screen (log_event w device_code_request)
            (''To give yt-dlp access to your account, go to  '' @ py_str E verification_url
              @ ''  and enter code  '' @ py_str E user_code))
          (''Sleeping for '' @ py_str E interval))
        (Sleep d))"
  using assms
  by (simp add: request_device_code_def download_json_eq py_sleep_def
      device_code_request_def[symmetric])

section \<open>The log only grows\<close>

lemma holds_pair: "P r w \<Longrightarrow> holds P (r, w)"
  by (simp add: holds_def)

lemma holds_sum:
  "(\<And>e. s = Inl e \<Longrightarrow> holds P (f e)) \<Longrightarrow> (\<And>v. s = Inr v \<Longrightarrow> holds P (g v)) \<Longrightarrow>
   holds P (case s of Inl e \<Rightarrow> f e | Inr v \<Rightarrow> g v)"
  by (cases s) simp_all

lemma holds_prod:
  "(\<And>a b. p = (a, b) \<Longrightarrow> holds P (f a b)) \<Longrightarrow> holds P (case p of (a, b) \<Rightarrow> f a b)"
  by (cases p) simp

lemma holds_if:
  "(c \<Longrightarrow> holds P a) \<Longrightarrow> (\<not> c \<Longrightarrow> holds P b) \<Longrightarrow> holds P (if c then a else b)"
  by simp

lemmas holds_intros = holds_sum holds_prod holds_if holds_pair

lemma holdsD: "holds P x \<Longrightarrow> x = (r, w) \<Longrightarrow> P r w"
  by (simp add: holds_def)

lemma download_json_trace:
  "download_json E w u b h = (r, w1) \<Longrightarrow> trace w1 = trace w @ [DownloadJson u b h]"
  by (auto simp: download_json_def)

lemma poll_request_trace:
  "execute_request E w ''https://oauth2.googleapis.com/token'' m (Some h) d = (r, w1) \<Longrightarrow>
   \<exists>h' b. trace w1 = trace w @ [UrlOpen ''https://oauth2.googleapis.com/token'' m h' b]"
  by (auto simp: execute_request_def lower_http Let_def)

lemma py_sleep_trace:
  "py_sleep w x = (r, w1) \<Longrightarrow> trace w1 = trace w \<or> (\<exists>d. trace w1 = trace w @ [Sleep d])"
  by (auto simp: py_sleep_def split: option.splits if_splits)

lemmas trace_dests = download_json_trace poll_request_trace py_sleep_trace

lemma quiet_refl: "quiet w w"
  by (simp add: quiet_def)

lemma quiet_trans: "quiet w w1 \<Longrightarrow> quiet w1 w2 \<Longrightarrow> quiet w w2"
  by (auto simp: quiet_def)

lemma poll_token_quiet: "holds (\<lambda>r w'. quiet w w') (poll_token E rd w)"
  unfolding poll_token_def Let_def
  by (intro holds_intros) (auto simp: quiet_def requests_to_def dest!: trace_dests)

lemma request_device_code_quiet: "holds (\<lambda>r w'. quiet w w') (request_device_code E w)"
  unfolding request_device_code_def Let_def
  by (intro holds_intros) (auto simp: quiet_def requests_to_def dest!: trace_dests)

lemma authorize_quiet_aux:
  "(\<forall>E w r w'. authorize n E w = Some (r, w') \<longrightarrow> quiet w w') \<and>
   (\<forall>E rd w r w'. authorize_poll n E rd w = Some (r, w') \<longrightarrow> quiet w w')"
proof (induction n)
  case 0
  show ?case by simp
next
  case (Suc n)
  have IH1: "quiet w w'" if "authorize n E w = Some (r, w')" for E w r w'
    using Suc that by blast
  have IH2: "quiet w w'" if "authorize_poll n E rd w = Some (r, w')" for E rd w r w'
    using Suc that by blast
  show ?case
  proof (intro conjI allI impI)
    fix E w r w'
    assume a: "authorize (Suc n) E w = Some (r, w')"
    obtain r1 w1 where rd: "request_device_code E w = (r1, w1)"
      by (cases "request_device_code E w")
    have q1: "quiet w w1"
      using holdsD[OF request_device_code_quiet rd] .
    show "quiet w w'"
    proof (cases r1)
      case (Inl e)
      with a rd have "w' = w1" by simp
      with q1 show ?thesis by simp
    next
      case (Inr x)
      with a rd have "authorize_poll n E x w1 = Some (r, w')" by simp
      from IH2[OF this] q1 show ?thesis by (blast intro: quiet_trans)
    qed
  next
    fix E rd w r w'
    assume a: "authorize_poll (Suc n) E rd w = Some (r, w')"
    obtain r1 w1 where rd: "poll_token E rd w = (r1, w1)"
      by (cases "poll_token E rd w")
    have q1: "quiet w w1"
      using holdsD[OF poll_token_quiet rd] .
    show "quiet w w'"
    proof (cases r1)
      case (Inl e)
      with a rd have "w' = w1" by simp
      with q1 show ?thesis by simp
    next
      case (Inr out)
      show ?thesis
      proof (cases out)
        case Continue
        with a rd Inr have "authorize_poll n E rd w1 = Some (r, w')" by simp
        from IH2[OF this] q1 show ?thesis by (blast intro: quiet_trans)
      next
        case Restart
        with a rd Inr have "authorize n E w1 = Some (r, w')" by simp
        from IH1[OF this] q1 show ?thesis by (blast intro: quiet_trans)
      next
        case (Return rec)
        with a rd Inr have "w' = w1" by simp
        with q1 show ?thesis by simp
      qed
    qed
  qed
qed

lemma authorize_quiet: "authorize n E w = Some (r, w') \<Longrightarrow> quiet w w'"
  using authorize_quiet_aux by blast

lemma authorize_poll_quiet: "authorize_poll n E rd w = Some (r, w') \<Longrightarrow> quiet w w'"
  using authorize_quiet_aux by blast

section \<open>Claims about single calls\<close>

lemmas scenario_defs = mock_env_def script_of_def scripted_def empty_world_def
  device_response_def error_response_def token_response_ok_def refresh_response_ok_def

text \<open>C3, as amended. On a dict, \<^verbatim>\<open>validate_token_data\<close> returns true exactly when
  the four keys \<^verbatim>\<open>access_token\<close>, \<^verbatim>\<open>expires\<close>, \<^verbatim>\<open>refresh_token\<close> and \<^verbatim>\<open>token_type\<close>
  are all present (so false on the empty dict and on a dict that misses any one of
  them). On \<^verbatim>\<open>None\<close> it raises TypeError; \<^verbatim>\<open>initialize_oauth\<close> tests the record's
  truth value first, so a \<^verbatim>\<open>None\<close> record reaches the authorization step without
  being validated.\<close>

theorem validate_token_data_dict:
  "validate_token_data (PDict d) =
     Inr (map_of d ''access_token'' \<noteq> None \<and> map_of d ''expires'' \<noteq> None \<and>
          map_of d ''refresh_token'' \<noteq> None \<and> map_of d ''token_type'' \<noteq> None)
   \<and> validate_token_data PNone = Inl TypeError
   \<and> check_cached w PNone = (Inr PNone, w)"
  by (simp add: validate_token_data_def check_cached_def)

theorem validate_token_data_dict_witness:
  "validate_token_data
     (PDict [(''access_token'', PStr ''AT''), (''expires'', PNum 2000),
             (''refresh_token'', PStr ''RT''), (''token_type'', PStr ''Bearer'')]) = Inr True
   \<and> validate_token_data
     (PDict [(''expires'', PNum 2000),
             (''refresh_token'', PStr ''RT''), (''token_type'', PStr ''Bearer'')]) = Inr False
   \<and> validate_token_data
     (PDict [(''access_token'', PStr ''AT''),
             (''refresh_token'', PStr ''RT''), (''token_type'', PStr ''Bearer'')]) = Inr False
   \<and> validate_token_data
     (PDict [(''access_token'', PStr ''AT''), (''expires'', PNum 2000),
             (''token_type'', PStr ''Bearer'')]) = Inr False
   \<and> validate_token_data
     (PDict [(''access_token'', PStr ''AT''), (''expires'', PNum 2000),
             (''refresh_token'', PStr ''RT'')]) = Inr False
   \<and> validate_token_data (PDict []) = Inr False"
  using validate_token_data_dict[of "[(''access_token'', PStr ''AT''), (''expires'', PNum 2000),
             (''refresh_token'', PStr ''RT''), (''token_type'', PStr ''Bearer'')]"]
    validate_token_data_dict[of "[(''expires'', PNum 2000),
             (''refresh_token'', PStr ''RT''), (''token_type'', PStr ''Bearer'')]"]
    validate_token_data_dict[of "[(''access_token'', PStr ''AT''),
             (''refresh_token'', PStr ''RT''), (''token_type'', PStr ''Bearer'')]"]
    validate_token_data_dict[of "[(''access_token'', PStr ''AT''), (''expires'', PNum 2000),
             (''token_type'', PStr ''Bearer'')]"]
    validate_token_data_dict[of "[(''access_token'', PStr ''AT''), (''expires'', PNum 2000),
             (''refresh_token'', PStr ''RT'')]"]
    validate_token_data_dict[of "[]"]
  by simp

theorem validate_token_data_None_counterexample:
  "validate_token_data PNone \<noteq> Inr False"
  by (simp add: validate_token_data_def)

text \<open>C10. When the headers of the request contain the marker
  \<^verbatim>\<open>__youtube_oauth__\<close>, \<^verbatim>\<open>_create_request\<close> returns the request with that one
  header removed, whatever the flag \<^verbatim>\<open>_use_oauth2\<close> says: the other headers keep
  their values and their order, and the state is unchanged, so nothing was logged,
  requested or stored and \<^verbatim>\<open>handle_oauth\<close> did not run.\<close>

theorem create_request_marker:
  assumes "map_of (headers req) ''__youtube_oauth__'' \<noteq> None"
  shows "create_request n E w req =
           Some (Inr (req\<lparr>headers := dict_pop ''__youtube_oauth__'' (headers req)\<rparr>), w)
         \<and> dict_pop ''__youtube_oauth__'' (headers req) =
             filter (\<lambda>kv. fst kv \<noteq> ''__youtube_oauth__'') (headers req)
         \<and> map_of (dict_pop ''__youtube_oauth__'' (headers req)) =
             (map_of (headers req))(''__youtube_oauth__'' := None)"
proof -
  have "AList.delete k xs = filter (\<lambda>kv. fst kv \<noteq> k) xs" for k :: string and xs :: header_dict
    by (induction xs) auto
  then have "dict_pop ''__youtube_oauth__'' (headers req) =
      filter (\<lambda>kv. fst kv \<noteq> ''__youtube_oauth__'') (headers req)"
    by (simp add: dict_pop_def)
  moreover have "map_of (dict_pop ''__youtube_oauth__'' (headers req)) =
      (map_of (headers req))(''__youtube_oauth__'' := None)"
    by (simp add: dict_pop_def delete_conv')
  moreover have "create_request n E w req =
      Some (Inr (req\<lparr>headers := dict_pop ''__youtube_oauth__'' (headers req)\<rparr>), w)"
    using assms by (simp add: create_request_def)
  ultimately show ?thesis by simp
qed

theorem create_request_marker_witness:
  "map_of [(''Content-Type'', PStr ''application/json''), (''__youtube_oauth__'', PBool True),
           (''Authorization'', PStr ''SAPISIDHASH abc'')] ''__youtube_oauth__'' \<noteq> None
   \<and> create_request 0 (mock_env (script_of [] [] [])) empty_world
       \<lparr>url = ''https://www.youtube.com/o/oauth2/token'',
        headers = [(''Content-Type'', PStr ''application/json''), (''__youtube_oauth__'', PBool True),
                   (''Authorization'', PStr ''SAPISIDHASH abc'')]\<rparr>
     = Some (Inr \<lparr>url = ''https://www.youtube.com/o/oauth2/token'',
                  headers = [(''Content-Type'', PStr ''application/json''),
                             (''Authorization'', PStr ''SAPISIDHASH abc'')]\<rparr>,
             empty_world)"
  using create_request_marker[of
      "\<lparr>url = ''https://www.youtube.com/o/oauth2/token'',
        headers = [(''Content-Type'', PStr ''application/json''), (''__youtube_oauth__'', PBool True),
                   (''Authorization'', PStr ''SAPISIDHASH abc'')]\<rparr>"
      0 "mock_env (script_of [] [] [])" empty_world]
  by simp

text \<open>C7. When the server answers the refresh request with a dict that has no
  \<^verbatim>\<open>error\<close> key and has \<^verbatim>\<open>access_token\<close>, \<^verbatim>\<open>token_type\<close> and a numeric
  \<^verbatim>\<open>expires_in\<close>, \<^verbatim>\<open>refresh_token\<close> returns the record with \<^verbatim>\<open>access_token\<close> and
  \<^verbatim>\<open>token_type\<close> of the response, \<^verbatim>\<open>expires\<close> equal to the clock reading after the
  request plus \<^verbatim>\<open>expires_in\<close>, and the \<^verbatim>\<open>refresh_token\<close> of the response when it has
  one, the argument otherwise; the request is all that it adds to the log.\<close>

theorem refresh_token_success:
  assumes "server E (trace w) (refresh_request rt) = Inr (PDict d)"
      and "map_of d ''error'' = None"
      and "map_of d ''access_token'' = Some a"
      and "map_of d ''expires_in'' = Some x" and "py_num x = Some secs"
      and "map_of d ''token_type'' = Some tt"
  shows "refresh_token n E w rt =
     Some (Inr (PDict [(''access_token'', a),
                       (''expires'', PNum (now E (trace w @ [refresh_request rt]) + secs)),
                       (''token_type'', tt),
                       (''refresh_token'',
                          case map_of d ''refresh_token'' of None \<Rightarrow> rt | Some r \<Rightarrow> r)]),
           log_event w (refresh_request rt))"
  using assms
  by (simp add: refresh_token_def download_json_eq refresh_request_def[symmetric]
      refresh_record_def timestamp_plus_def split: option.split)

theorem refresh_token_success_witness:
  "server (mock_env (script_of [] [] [Inr refresh_response_ok])) (trace empty_world)
      (refresh_request (PStr ''RT-0'')) = Inr refresh_response_ok
   \<and> refresh_token 0 (mock_env (script_of [] [] [Inr refresh_response_ok])) empty_world (PStr ''RT-0'') =
     Some (Inr (PDict [(''access_token'', PStr ''AT-2''),
                       (''expires'', PNum 4600),
                       (''token_type'', PStr ''Bearer''),
                       (''refresh_token'', PStr ''RT-0'')]),
           log_event empty_world (refresh_request (PStr ''RT-0'')))"
  using refresh_token_success[of "mock_env (script_of [] [] [Inr refresh_response_ok])" empty_world
      "PStr ''RT-0''"
      "[(''access_token'', PStr ''AT-2''), (''expires_in'', PNum 3599), (''token_type'', PStr ''Bearer'')]"
      "PStr ''AT-2''" "PNum 3599" 3599 "PStr ''Bearer''" 0]
  by (simp add: scenario_defs refresh_request_def)

text \<open>C8, as amended. When the server answers the refresh request with a dict
  whose \<^verbatim>\<open>error\<close> value is true for Python (any non-empty string, such as
  \<^verbatim>\<open>invalid_grant\<close>), \<^verbatim>\<open>refresh_token\<close> logs the warning that names the error and
  returns what \<^verbatim>\<open>authorize\<close> returns from there, be it a record, an exception or
  no return at all. The refresh failure itself raises nothing.\<close>

theorem refresh_token_error:
  assumes "server E (trace w) (refresh_request rt) = Inr (PDict d)"
      and "map_of d ''error'' = Some err"
      and "truthy err"
  shows "refresh_token n E w rt =
     authorize n E
       (report_warning (log_event w (refresh_request rt))
         (''Failed to refresh access token: '' @ py_str E err @ ''. Restarting authorization flow''))"
  using assms
  by (simp add: refresh_token_def download_json_eq refresh_request_def[symmetric])

lemmas run_defs = scenario_defs request_device_code_def poll_token_def authorize_record_def
  refresh_record_def refresh_token_def download_json_def execute_request_def log_event_def
  to_screen_def report_warning_def py_sleep_def py_str_def timestamp_plus_def dict_update_def
  lower_http Let_def requests_to_def result_of_def trace_of_def refresh_request_def
  device_code_request_def poll_request_def

theorem refresh_token_error_witness:
  "server (mock_env (script_of [Inr device_response] [Inr token_response_ok]
             [Inr (error_response ''invalid_grant'')]))
      (trace empty_world) (refresh_request (PStr ''RT-0'')) = Inr (error_response ''invalid_grant'')
   \<and> result_of (refresh_token (Suc (Suc 0))
         (mock_env (script_of [Inr device_response] [Inr token_response_ok]
             [Inr (error_response ''invalid_grant'')]))
         empty_world (PStr ''RT-0''))
     = Some (Inr (PDict [(''access_token'', PStr ''AT-1''), (''expires'', PNum 4609),
                         (''refresh_token'', PStr ''RT-1''), (''token_type'', PStr ''Bearer'')]))
   \<and> warnings (trace_of (refresh_token (Suc (Suc 0))
         (mock_env (script_of [Inr device_response] [Inr token_response_ok]
             [Inr (error_response ''invalid_grant'')]))
         empty_world (PStr ''RT-0'')))
     = [''Failed to refresh access token: invalid_grant. Restarting authorization flow'']"
  using refresh_token_error[of
      "mock_env (script_of [Inr device_response] [Inr token_response_ok]
             [Inr (error_response ''invalid_grant'')])"
      empty_world "PStr ''RT-0''" "[(''error'', PStr ''invalid_grant'')]" "PStr ''invalid_grant''"
      "Suc (Suc 0)"]
  by (simp add: run_defs)

theorem refresh_token_error_counterexample:
  "refresh_token (Suc (Suc 0))
     (mock_env (script_of [Inr device_response] [Inr token_response_ok]
        [Inr (refresh_response_with_error (PStr []))]))
     empty_world (PStr ''RT-0'')
   = Some (Inr (PDict [(''access_token'', PStr ''AT-2''), (''expires'', PNum 4600),
                       (''token_type'', PStr ''Bearer''), (''refresh_token'', PStr ''RT-0'')]),
           log_event empty_world (refresh_request (PStr ''RT-0'')))
   \<and> refresh_token (Suc (Suc 0))
     (mock_env (script_of [Inr device_response] [Inr token_response_ok]
        [Inr (refresh_response_with_error PNone)]))
     empty_world (PStr ''RT-0'')
   = Some (Inr (PDict [(''access_token'', PStr ''AT-2''), (''expires'', PNum 4600),
                       (''token_type'', PStr ''Bearer''), (''refresh_token'', PStr ''RT-0'')]),
           log_event empty_world (refresh_request (PStr ''RT-0'')))
   \<and> warnings (trace (log_event empty_world (refresh_request (PStr ''RT-0'')))) = []"
  by (simp add: run_defs refresh_response_with_error_def)

text \<open>C9, as amended. Whenever \<^verbatim>\<open>refresh_token\<close> returns or raises, the first thing
  it added to the log is one call of \<^verbatim>\<open>_download_json\<close> (which sends a POST, since
  it carries a body) to \<^verbatim>\<open>https://www.youtube.com/o/oauth2/token\<close> with the JSON
  body \<^verbatim>\<open>{client_id, client_secret, refresh_token, grant_type: "refresh_token"}\<close> and
  the headers \<^verbatim>\<open>Content-Type: application/json\<close> and \<^verbatim>\<open>__youtube_oauth__: True\<close>;
  nothing after it in the log is a request to that URL.\<close>

theorem refresh_token_request:
  assumes "refresh_token n E w rt = Some (r, w')"
  shows "\<exists>t. trace w' =
           trace w @
           DownloadJson ''https://www.youtube.com/o/oauth2/token''
             (Encoded (PDict [(''client_id'', PStr CLIENT_ID),
                              (''client_secret'', PStr CLIENT_SECRET),
                              (''refresh_token'', rt),
                              (''grant_type'', PStr ''refresh_token'')]))
             [(''Content-Type'', PStr ''application/json''),
              (''__youtube_oauth__'', PBool True)] # t
         \<and> requests_to ''https://www.youtube.com/o/oauth2/token'' t = []"
proof -
  let ?w1 = "log_event w (refresh_request rt)"
  have "\<exists>t. trace w' = trace w @ refresh_request rt # t
        \<and> requests_to ''https://www.youtube.com/o/oauth2/token'' t = []"
  proof (cases "server E (trace w) (refresh_request rt)")
    case (Inl e)
    with assms have "w' = ?w1"
      by (simp add: refresh_token_def download_json_eq refresh_request_def[symmetric])
    then show ?thesis by simp
  next
    case (Inr token_response)
    show ?thesis
    proof (cases "truthy (traverse_obj token_response ''error'')")
      case True
      let ?w2 = "report_warning ?w1
         (''Failed to refresh access token: '' @ py_str E (traverse_obj token_response ''error'')
           @ ''. Restarting authorization flow'')"
      from assms Inr True have "authorize n E ?w2 = Some (r, w')"
        by (simp add: refresh_token_def download_json_eq refresh_request_def[symmetric])
      then have q: "quiet ?w2 w'" by (rule authorize_quiet)
      then obtain t where t: "trace w' = trace ?w2 @ t"
        by (auto simp: quiet_def prefix_def)
      from q have "requests_to ''https://www.youtube.com/o/oauth2/token'' (trace w') =
          requests_to ''https://www.youtube.com/o/oauth2/token'' (trace ?w2)"
        by (simp only: quiet_def)
      then have "requests_to ''https://www.youtube.com/o/oauth2/token'' (trace ?w2) @
          requests_to ''https://www.youtube.com/o/oauth2/token'' t =
          requests_to ''https://www.youtube.com/o/oauth2/token'' (trace ?w2)"
        by (simp only: t requests_to_append)
      then have "requests_to ''https://www.youtube.com/o/oauth2/token'' t = []"
        by (simp only: append_self_conv)
      with t show ?thesis by (simp add: requests_to_Cons)
    next
      case False
      with assms Inr have "w' = ?w1"
        by (auto simp: refresh_token_def download_json_eq refresh_request_def[symmetric]
            split: sum.splits)
      then show ?thesis by simp
    qed
  qed
  then show ?thesis by (simp add: refresh_request_def)
qed

theorem refresh_token_request_witness:
  "refresh_token 0 (mock_env (script_of [] [] [Inr refresh_response_ok])) empty_world (PStr ''RT-0'')
     = Some (Inr (PDict [(''access_token'', PStr ''AT-2''), (''expires'', PNum 4600),
                         (''token_type'', PStr ''Bearer''), (''refresh_token'', PStr ''RT-0'')]),
             log_event empty_world (refresh_request (PStr ''RT-0'')))
   \<and> (\<exists>t. trace (log_event empty_world (refresh_request (PStr ''RT-0''))) =
           trace empty_world @
           DownloadJson ''https://www.youtube.com/o/oauth2/token''
             (Encoded (PDict [(''client_id'', PStr CLIENT_ID),
                              (''client_secret'', PStr CLIENT_SECRET),
                              (''refresh_token'', PStr ''RT-0''),
                              (''grant_type'', PStr ''refresh_token'')]))
             [(''Content-Type'', PStr ''application/json''),
              (''__youtube_oauth__'', PBool True)] # t
         \<and> requests_to ''https://www.youtube.com/o/oauth2/token'' t = [])"
proof -
  have run: "refresh_token 0 (mock_env (script_of [] [] [Inr refresh_response_ok])) empty_world
       (PStr ''RT-0'')
     = Some (Inr (PDict [(''access_token'', PStr ''AT-2''), (''expires'', PNum 4600),
                         (''token_type'', PStr ''Bearer''), (''refresh_token'', PStr ''RT-0'')]),
             log_event empty_world (refresh_request (PStr ''RT-0'')))"
    by (simp add: run_defs)
  from refresh_token_request[OF run] run show ?thesis by simp
qed

theorem refresh_token_request_counterexample:
  "map event_url
     (trace_of (refresh_token 0 (mock_env (script_of [] [] [Inr refresh_response_ok])) empty_world
        (PStr ''RT-0'')))
   = [Some ''https://www.youtube.com/o/oauth2/token'']
   \<and> requests_to ''https://oauth2.googleapis.com/token''
     (trace_of (refresh_token 0 (mock_env (script_of [] [] [Inr refresh_response_ok])) empty_world
        (PStr ''RT-0'')))
   = []"
  by (simp add: run_defs)

section \<open>Runs against a scripted server\<close>

lemma event_url_requests [simp]:
  "event_url (poll_request dc) = Some ''https://oauth2.googleapis.com/token''"
  "event_url device_code_request = Some ''https://oauth2.googleapis.com/device/code''"
  "event_url (refresh_request rt) = Some ''https://www.youtube.com/o/oauth2/token''"
  by (simp_all add: poll_request_def device_code_request_def refresh_request_def)

lemma sleeps_requests [simp]:
  "sleeps (poll_request dc # t) = sleeps t"
  "sleeps (device_code_request # t) = sleeps t"
  "sleeps (refresh_request rt # t) = sleeps t"
  by (simp_all add: poll_request_def device_code_request_def refresh_request_def)

lemma warnings_requests [simp]:
  "warnings (poll_request dc # t) = warnings t"
  "warnings (device_code_request # t) = warnings t"
  "warnings (refresh_request rt # t) = warnings t"
  by (simp_all add: poll_request_def device_code_request_def refresh_request_def)

lemmas requests_to_single = requests_to_Cons

lemma nth_response_replicate:
  "nth_response (replicate k x @ ys) j = (if j < k then x else nth_response ys (j - k))"
proof (induction k arbitrary: j)
  case 0
  show ?case by simp
next
  case (Suc k)
  show ?case by (cases j) (simp_all add: Suc)
qed

lemma scripted_poll:
  "server E = scripted script \<Longrightarrow>
   server E t (poll_request dc) =
     nth_response (script ''https://oauth2.googleapis.com/token'')
       (length (requests_to ''https://oauth2.googleapis.com/token'' t))"
  by (simp add: scripted_def)

lemma scripted_device:
  "server E = scripted script \<Longrightarrow>
   server E t device_code_request =
     nth_response (script ''https://oauth2.googleapis.com/device/code'')
       (length (requests_to ''https://oauth2.googleapis.com/device/code'' t))"
  by (simp add: scripted_def)

lemma adds_refl: "adds w w [] [] [] []"
  by (simp add: adds_def)

lemma adds_trans:
  "adds w w1 d1 p1 s1 a1 \<Longrightarrow> adds w1 w2 d2 p2 s2 a2 \<Longrightarrow>
   adds w w2 (d1 @ d2) (p1 @ p2) (s1 @ s2) (a1 @ a2)"
  by (simp add: adds_def)

lemma pending_step:
  assumes "py_getitem rd ''device_code'' = Inr dc"
      and "server E (trace w) (poll_request dc) = Inr pend"
      and "traverse_obj pend ''error'' = PStr ''authorization_pending''"
      and "py_getitem rd ''interval'' = Inr iv" and "py_num iv = Some d" and "0 \<le> d"
  shows "\<exists>w1. authorize_poll (Suc n) E rd w = authorize_poll n E rd w1 \<and>
              adds w w1 [] [poll_request dc] [d] []"
proof -
  let ?w1 = "log_event
        (to_screen (to_screen (log_event w (poll_request dc)) ''\<newline>\<newline>'') (py_str E pend))
        (Sleep d)"
  have "poll_token E rd w = (Inr Continue, ?w1)"
    using assms by (rule poll_token_pending)
  then have "authorize_poll (Suc n) E rd w = authorize_poll n E rd ?w1" by simp
  moreover have "adds w ?w1 [] [poll_request dc] [d] []"
    by (simp add: adds_def requests_to_single)
  ultimately show ?thesis by blast
qed

lemma expired_step:
  assumes "py_getitem rd ''device_code'' = Inr dc"
      and "server E (trace w) (poll_request dc) = Inr resp"
      and "traverse_obj resp ''error'' = PStr ''expired_token''"
  shows "\<exists>w1. authorize_poll (Suc n) E rd w = authorize n E w1 \<and>
              adds w w1 [] [poll_request dc] []
                [''The device code has expired, restarting authorization flow'']"
proof -
  let ?w1 = "report_warning
        (to_screen (to_screen (log_event w (poll_request dc)) ''\<newline>\<newline>'') (py_str E resp))
        ''The device code has expired, restarting authorization flow''"
  have "poll_token E rd w = (Inr Restart, ?w1)"
    using assms by (rule poll_token_expired)
  then have "authorize_poll (Suc n) E rd w = authorize n E ?w1" by simp
  moreover have "adds w ?w1 [] [poll_request dc] []
      [''The device code has expired, restarting authorization flow'']"
    by (simp add: adds_def requests_to_single)
  ultimately show ?thesis by blast
qed

lemma unhandled_step:
  assumes "py_getitem rd ''device_code'' = Inr dc"
      and "server E (trace w) (poll_request dc) = Inr resp"
      and "traverse_obj resp ''error'' = err"
      and "truthy err" and "err \<noteq> PStr ''authorization_pending''" and "err \<noteq> PStr ''expired_token''"
  shows "\<exists>w1. authorize_poll (Suc n) E rd w =
                Some (Inl (ExtractorError (''Unhandled OAuth2 Error: '' @ py_str E err)), w1) \<and>
              adds w w1 [] [poll_request dc] [] []"
proof -
  let ?w1 = "to_screen (to_screen (log_event w (poll_request dc)) ''\<newline>\<newline>'') (py_str E resp)"
  have "poll_token E rd w =
      (Inl (ExtractorError (''Unhandled OAuth2 Error: '' @ py_str E err)), ?w1)"
    using assms by (rule poll_token_unhandled)
  then have "authorize_poll (Suc n) E rd w =
      Some (Inl (ExtractorError (''Unhandled OAuth2 Error: '' @ py_str E err)), ?w1)" by simp
  moreover have "adds w ?w1 [] [poll_request dc] [] []"
    by (simp add: adds_def requests_to_single)
  ultimately show ?thesis by blast
qed

lemma success_step:
  assumes "py_getitem rd ''device_code'' = Inr dc"
      and "server E (trace w) (poll_request dc) = Inr (PDict ds)"
      and "\<not> truthy (traverse_obj (PDict ds) ''error'')"
      and "map_of ds ''access_token'' = Some a"
      and "map_of ds ''expires_in'' = Some x" and "py_num x = Some secs"
      and "map_of ds ''refresh_token'' = Some r"
      and "map_of ds ''token_type'' = Some tt"
  shows "\<exists>w1. authorize_poll (Suc n) E rd w =
                Some (Inr (PDict [(''access_token'', a), (''expires'', PNum (now E (trace w1) + secs)),
                                  (''refresh_token'', r), (''token_type'', tt)]), w1) \<and>
              adds w w1 [] [poll_request dc] [] []"
proof -
  let ?w1 = "to_screen
      (to_screen (to_screen (log_event w (poll_request dc)) ''\<newline>\<newline>'') (py_str E (PDict ds)))
      ''Authorization successful''"
  have rec: "authorize_record (now E (trace ?w1)) (PDict ds) =
      Inr (PDict [(''access_token'', a), (''expires'', PNum (now E (trace ?w1) + secs)),
                  (''refresh_token'', r), (''token_type'', tt)])"
    using assms(4-8) by (simp add: authorize_record_def timestamp_plus_def)
  have "poll_token E rd w =
      (Inr (Return (PDict [(''access_token'', a), (''expires'', PNum (now E (trace ?w1) + secs)),
                           (''refresh_token'', r), (''token_type'', tt)])), ?w1)"
    using assms(1-3) refl rec by (rule poll_token_success)
  then have "authorize_poll (Suc n) E rd w =
      Some (Inr (PDict [(''access_token'', a), (''expires'', PNum (now E (trace ?w1) + secs)),
                        (''refresh_token'', r), (''token_type'', tt)]), ?w1)" by simp
  moreover have "adds w ?w1 [] [poll_request dc] [] []"
    by (simp add: adds_def requests_to_single)
  ultimately show ?thesis by blast
qed

lemma device_step:
  assumes "server E (trace w) device_code_request = Inr rd"
      and "py_getitem rd ''verification_url'' = Inr vu"
      and "py_getitem rd ''user_code'' = Inr uc"
      and "py_getitem rd ''interval'' = Inr iv" and "py_num iv = Some d" and "0 \<le> d"
  shows "\<exists>w1. authorize (Suc n) E w = authorize_poll n E rd w1 \<and>
              adds w w1 [device_code_request] [] [d] []"
proof -
  let ?w1 = "log_event
        (to_screen
          (to_screen (log_event w device_code_request)
            (''To give yt-dlp access to your account, go to  '' @ py_str E vu
              @ ''  and enter code  '' @ py_str E uc))
          (''Sleeping for '' @ py_str E iv))
        (Sleep d)"
  have "request_device_code E w = (Inr rd, ?w1)"
    using assms by (rule request_device_code_ok)
  then have "authorize (Suc n) E w = authorize_poll n E rd ?w1" by simp
  moreover have "adds w ?w1 [device_code_request] [] [d] []"
    by (simp add: adds_def requests_to_single)
  ultimately show ?thesis by blast
qed

lemma nth_response_append:
  "nth_response (xs @ ys) j =
     (if j < length xs then nth_response xs j else nth_response ys (j - length xs))"
proof (induction xs arbitrary: j)
  case Nil
  show ?case by simp
next
  case (Cons x xs)
  show ?case by (cases j) (simp_all add: Cons)
qed

lemma nth_response_replicate_lt: "j < k \<Longrightarrow> nth_response (replicate k x) j = x"
  using nth_response_replicate[of k x "[]" j] by simp

lemma pending_run:
  assumes srv: "server E = scripted script"
      and pend: "traverse_obj pend ''error'' = PStr ''authorization_pending''"
      and dc: "py_getitem rd ''device_code'' = Inr dc"
      and iv: "py_getitem rd ''interval'' = Inr iv" "py_num iv = Some d" "0 \<le> d"
  shows "(\<And>i. i < m \<Longrightarrow>
            nth_response (script ''https://oauth2.googleapis.com/token'')
              (length (requests_to ''https://oauth2.googleapis.com/token'' (trace w)) + i) = Inr pend) \<Longrightarrow>
         \<exists>w1. authorize_poll (m + n) E rd w = authorize_poll n E rd w1 \<and>
              adds w w1 [] (replicate m (poll_request dc)) (replicate m d) []"
proof (induction m arbitrary: w)
  case 0
  show ?case using adds_refl by auto
next
  case (Suc m)
  have "server E (trace w) (poll_request dc) = Inr pend"
    using Suc.prems[of 0] by (simp add: scripted_poll[OF srv])
  from pending_step[OF dc this pend iv, of "m + n"]
  obtain w1 where s1: "authorize_poll (Suc (m + n)) E rd w = authorize_poll (m + n) E rd w1"
    and a1: "adds w w1 [] [poll_request dc] [d] []" by blast
  have "nth_response (script ''https://oauth2.googleapis.com/token'')
          (length (requests_to ''https://oauth2.googleapis.com/token'' (trace w1)) + i) = Inr pend"
    if "i < m" for i
    using Suc.prems[of "Suc i"] that a1 by (simp add: adds_def)
  from Suc.IH[OF this]
  obtain w2 where s2: "authorize_poll (m + n) E rd w1 = authorize_poll n E rd w2"
    and a2: "adds w1 w2 [] (replicate m (poll_request dc)) (replicate m d) []" by blast
  from adds_trans[OF a1 a2]
  have "adds w w2 [] (replicate (Suc m) (poll_request dc)) (replicate (Suc m) d) []" by simp
  with s1 s2 show ?case by auto
qed

section \<open>Claims about the device flow\<close>

lemma authorize_pending_then:
  assumes srv: "server E = scripted script"
      and dev: "nth_response (script ''https://oauth2.googleapis.com/device/code'')
                  (length (requests_to ''https://oauth2.googleapis.com/device/code'' (trace w))) = Inr rd"
      and polls: "\<And>i. i < k \<Longrightarrow>
            nth_response (script ''https://oauth2.googleapis.com/token'')
              (length (requests_to ''https://oauth2.googleapis.com/token'' (trace w)) + i) = Inr pend"
      and rd: "py_getitem rd ''verification_url'' = Inr vu" "py_getitem rd ''user_code'' = Inr uc"
              "py_getitem rd ''device_code'' = Inr dc"
      and iv: "py_getitem rd ''interval'' = Inr iv" "py_num iv = Some d" "0 \<le> d"
      and pend: "traverse_obj pend ''error'' = PStr ''authorization_pending''"
  shows "\<exists>w1. authorize (Suc (k + n)) E w = authorize_poll n E rd w1 \<and>
              adds w w1 [device_code_request] (replicate k (poll_request dc)) (replicate (Suc k) d) []"
proof -
  have "server E (trace w) device_code_request = Inr rd"
    using dev by (simp add: scripted_device[OF srv])
  from device_step[OF this rd(1,2) iv, of "k + n"]
  obtain w1 where s1: "authorize (Suc (k + n)) E w = authorize_poll (k + n) E rd w1"
    and a1: "adds w w1 [device_code_request] [] [d] []" by blast
  have "nth_response (script ''https://oauth2.googleapis.com/token'')
          (length (requests_to ''https://oauth2.googleapis.com/token'' (trace w1)) + i) = Inr pend"
    if "i < k" for i
    using polls[OF that] a1 by (simp add: adds_def)
  from pending_run[OF srv pend rd(3) iv this, of k n]
  obtain w2 where s2: "authorize_poll (k + n) E rd w1 = authorize_poll n E rd w2"
    and a2: "adds w1 w2 [] (replicate k (poll_request dc)) (replicate k d) []" by blast
  from adds_trans[OF a1 a2]
  have "adds w w2 [device_code_request] (replicate k (poll_request dc)) (replicate (Suc k) d) []"
    by simp
  with s1 s2 show ?thesis by auto
qed




text \<open>C5. Against a server whose token endpoint answers \<^verbatim>\<open>expired_token\<close> (on the
  first poll, or after \<open>k\<close> pending answers) and, once the flow has been restarted,
  a token (after \<open>j\<close> pending answers), \<^verbatim>\<open>authorize\<close> logs the warning, sends the
  device-code request a second time, polls with the new device code and returns
  the token record: the device-code endpoint is called exactly twice. Whatever
  the server and the state, a round of the polling loop whose poll is answered
  \<^verbatim>\<open>expired_token\<close> logs the warning and calls \<^verbatim>\<open>authorize\<close> again from its
  start.\<close>

theorem authorize_expired_restart:
  assumes srv: "server E = scripted script"
      and dev: "script ''https://oauth2.googleapis.com/device/code'' = Inr rd1 # Inr rd2 # others"
      and polls: "script ''https://oauth2.googleapis.com/token'' =
                    replicate k (Inr pend) @ Inr expd # replicate j (Inr pend) @ [Inr (PDict ds)]"
      and start: "requests_to ''https://oauth2.googleapis.com/device/code'' (trace w) = []"
                 "requests_to ''https://oauth2.googleapis.com/token'' (trace w) = []"
      and rd1: "py_getitem rd1 ''verification_url'' = Inr vu1" "py_getitem rd1 ''user_code'' = Inr uc1"
               "py_getitem rd1 ''device_code'' = Inr dc1"
      and iv1: "py_getitem rd1 ''interval'' = Inr iv1" "py_num iv1 = Some d1" "0 \<le> d1"
      and rd2: "py_getitem rd2 ''verification_url'' = Inr vu2" "py_getitem rd2 ''user_code'' = Inr uc2"
               "py_getitem rd2 ''device_code'' = Inr dc2"
      and iv2: "py_getitem rd2 ''interval'' = Inr iv2" "py_num iv2 = Some d2" "0 \<le> d2"
      and pend: "traverse_obj pend ''error'' = PStr ''authorization_pending''"
      and expd: "traverse_obj expd ''error'' = PStr ''expired_token''"
      and tok: "\<not> truthy (traverse_obj (PDict ds) ''error'')"
               "map_of ds ''access_token'' = Some a"
               "map_of ds ''expires_in'' = Some x" "py_num x = Some secs"
               "map_of ds ''refresh_token'' = Some r"
               "map_of ds ''token_type'' = Some tt"
  shows "(\<exists>w'. authorize (k + j + 4 + n) E w =
                Some (Inr (PDict [(''access_token'', a), (''expires'', PNum (now E (trace w') + secs)),
                                  (''refresh_token'', r), (''token_type'', tt)]), w') \<and>
              requests_to ''https://oauth2.googleapis.com/device/code'' (trace w') =
                [device_code_request, device_code_request] \<and>
              requests_to ''https://oauth2.googleapis.com/token'' (trace w') =
                replicate (k + 1) (poll_request dc1) @ replicate (j + 1) (poll_request dc2) \<and>
              warnings (trace w') =
                warnings (trace w) @ [''The device code has expired, restarting authorization flow''])
         \<and>
         (py_getitem rd0 ''device_code'' = Inr dc0 \<and>
          server E0 (trace w0) (poll_request dc0) = Inr expd \<longrightarrow>
            authorize_poll (Suc m) E0 rd0 w0 =
              authorize m E0
                (report_warning
                  (to_screen (to_screen (log_event w0 (poll_request dc0)) ''\<newline>\<newline>'')
                    (py_str E0 expd))
                  ''The device code has expired, restarting authorization flow''))"
    (is "?run \<and> ?step")
proof (rule conjI)
  show ?run
  proof -
    let ?n3 = "Suc n"
    let ?n2 = "Suc (j + ?n3)"
    let ?n1 = "Suc ?n2"
    have "\<exists>w1. authorize (Suc (k + ?n1)) E w = authorize_poll ?n1 E rd1 w1 \<and>
        adds w w1 [device_code_request] (replicate k (poll_request dc1)) (replicate (Suc k) d1) []"
      using srv _ _ rd1 iv1 pend
      by (rule authorize_pending_then)
        (simp_all add: dev polls start nth_response_append nth_response_replicate_lt)
    then obtain w1 where s1: "authorize (Suc (k + ?n1)) E w = authorize_poll ?n1 E rd1 w1"
      and a1: "adds w w1 [device_code_request] (replicate k (poll_request dc1)) (replicate (Suc k) d1) []"
      by blast
    have "server E (trace w1) (poll_request dc1) = Inr expd"
      using a1 by (simp add: scripted_poll[OF srv] adds_def polls start nth_response_append)
    from expired_step[OF rd1(3) this expd, of ?n2]
    obtain w2 where s2: "authorize_poll ?n1 E rd1 w1 = authorize ?n2 E w2"
      and a2: "adds w1 w2 [] [poll_request dc1] []
        [''The device code has expired, restarting authorization flow'']" by blast
    note a12 = adds_trans[OF a1 a2]
    have "\<exists>w3. authorize ?n2 E w2 = authorize_poll ?n3 E rd2 w3 \<and>
        adds w2 w3 [device_code_request] (replicate j (poll_request dc2)) (replicate (Suc j) d2) []"
      using srv _ _ rd2 iv2 pend
    proof (rule authorize_pending_then)
      show "nth_response (script ''https://oauth2.googleapis.com/device/code'')
          (length (requests_to ''https://oauth2.googleapis.com/device/code'' (trace w2))) = Inr rd2"
        using a12 by (simp add: adds_def dev start)
      show "nth_response (script ''https://oauth2.googleapis.com/token'')
          (length (requests_to ''https://oauth2.googleapis.com/token'' (trace w2)) + i) = Inr pend"
        if "i < j" for i
        using a12 that
        by (simp add: adds_def polls start nth_response_append nth_response_replicate_lt)
    qed
    then obtain w3 where s3: "authorize ?n2 E w2 = authorize_poll ?n3 E rd2 w3"
      and a3: "adds w2 w3 [device_code_request] (replicate j (poll_request dc2)) (replicate (Suc j) d2) []"
      by blast
    note a123 = adds_trans[OF a12 a3]
    have "server E (trace w3) (poll_request dc2) = Inr (PDict ds)"
      using a123 by (simp add: scripted_poll[OF srv] adds_def polls start nth_response_append)
    from success_step[OF rd2(3) this tok, of n]
    obtain w4 where s4: "authorize_poll ?n3 E rd2 w3 =
        Some (Inr (PDict [(''access_token'', a), (''expires'', PNum (now E (trace w4) + secs)),
                          (''refresh_token'', r), (''token_type'', tt)]), w4)"
      and a4: "adds w3 w4 [] [poll_request dc2] [] []" by blast
    from adds_trans[OF a123 a4]
    have "requests_to ''https://oauth2.googleapis.com/device/code'' (trace w4) =
          [device_code_request, device_code_request] \<and>
        requests_to ''https://oauth2.googleapis.com/token'' (trace w4) =
          replicate (k + 1) (poll_request dc1) @ replicate (j + 1) (poll_request dc2) \<and>
        warnings (trace w4) =
          warnings (trace w) @ [''The device code has expired, restarting authorization flow'']"
      by (simp add: adds_def start replicate_append_same)
    moreover have fuel: "k + j + 4 + n = Suc (k + ?n1)" by simp
    have "authorize (k + j + 4 + n) E w =
        Some (Inr (PDict [(''access_token'', a), (''expires'', PNum (now E (trace w4) + secs)),
                          (''refresh_token'', r), (''token_type'', tt)]), w4)"
      by (simp only: fuel s1 s2 s3 s4)
    ultimately show ?thesis by blast
  qed
  show ?step
    using poll_token_expired[of rd0 dc0 E0 w0 expd] expd by auto
qed

theorem authorize_expired_restart_witness:
  "(\<exists>w'. authorize 4
          (mock_env (script_of [Inr device_response, Inr device_response]
             [Inr (error_response ''expired_token''), Inr token_response_ok] []))
          empty_world =
        Some (Inr (PDict [(''access_token'', PStr ''AT-1''),
                          (''expires'', PNum (1000 + real (length (trace w')) + 3599)),
                          (''refresh_token'', PStr ''RT-1''), (''token_type'', PStr ''Bearer'')]), w') \<and>
        requests_to ''https://oauth2.googleapis.com/device/code'' (trace w') =
          [device_code_request, device_code_request] \<and>
        requests_to ''https://oauth2.googleapis.com/token'' (trace w') =
          [poll_request (PStr ''DEV-1''), poll_request (PStr ''DEV-1'')] \<and>
        warnings (trace w') = [''The device code has expired, restarting authorization flow''])
   \<and> authorize_poll (Suc (Suc 0))
         (mock_env (script_of [Inr device_response, Inr device_response]
            [Inr (error_response ''expired_token''), Inr token_response_ok] []))
         device_response empty_world =
       authorize (Suc 0)
         (mock_env (script_of [Inr device_response, Inr device_response]
            [Inr (error_response ''expired_token''), Inr token_response_ok] []))
         (report_warning
           (to_screen (to_screen (log_event empty_world (poll_request (PStr ''DEV-1''))) ''\<newline>\<newline>'')
             ''<object>'')
           ''The device code has expired, restarting authorization flow'')"
proof -
  have fuel: "(0::nat) + 0 + 4 + 0 = 4" by simp
  show ?thesis
    using authorize_expired_restart[of
      "mock_env (script_of [Inr device_response, Inr device_response]
             [Inr (error_response ''expired_token''), Inr token_response_ok] [])"
      "script_of [Inr device_response, Inr device_response]
             [Inr (error_response ''expired_token''), Inr token_response_ok] []"
      device_response device_response "[]" 0 "error_response ''authorization_pending''"
      "error_response ''expired_token''" 0
      "[(''access_token'', PStr ''AT-1''), (''expires_in'', PNum 3599),
        (''refresh_token'', PStr ''RT-1''), (''token_type'', PStr ''Bearer'')]"
      empty_world
      "PStr ''https://www.google.com/device''" "PStr ''ABCD-EFGH''" "PStr ''DEV-1''" "PNum 5" 5
      "PStr ''https://www.google.com/device''" "PStr ''ABCD-EFGH''" "PStr ''DEV-1''" "PNum 5" 5
      "PStr ''AT-1''" "PNum 3599" 3599 "PStr ''RT-1''" "PStr ''Bearer''" 0
      device_response "PStr ''DEV-1''"
      "mock_env (script_of [Inr device_response, Inr device_response]
             [Inr (error_response ''expired_token''), Inr token_response_ok] [])"
      empty_world "Suc 0", unfolded fuel]
    by (simp add: mock_env_def script_of_def scripted_def empty_world_def device_response_def
        error_response_def token_response_ok_def py_str_def poll_request_def
        del: authorize.simps authorize_poll.simps)
qed

text \<open>C6. Against a server whose token endpoint answers a poll (the first one, or
  the one after \<open>k\<close> pending answers) with an error value that Python takes as
  true (any non-empty string) and that is neither \<^verbatim>\<open>authorization_pending\<close> nor
  \<^verbatim>\<open>expired_token\<close>, \<^verbatim>\<open>authorize\<close> raises \<^verbatim>\<open>ExtractorError\<close> with the message
  \<^verbatim>\<open>Unhandled OAuth2 Error:\<close> followed by the error value, and so returns no token
  record; it polls no further. Whatever the server and the state, a round of the
  polling loop whose poll is answered with such an error value ends with that
  \<^verbatim>\<open>ExtractorError\<close>.\<close>

theorem authorize_unhandled_error:
  assumes srv: "server E = scripted script"
      and dev: "script ''https://oauth2.googleapis.com/device/code'' = Inr rd # others"
      and polls: "script ''https://oauth2.googleapis.com/token'' =
                    replicate k (Inr pend) @ Inr resp # later"
      and start: "requests_to ''https://oauth2.googleapis.com/device/code'' (trace w) = []"
                 "requests_to ''https://oauth2.googleapis.com/token'' (trace w) = []"
      and rd: "py_getitem rd ''verification_url'' = Inr vu" "py_getitem rd ''user_code'' = Inr uc"
              "py_getitem rd ''device_code'' = Inr dc"
      and iv: "py_getitem rd ''interval'' = Inr iv" "py_num iv = Some d" "0 \<le> d"
      and pend: "traverse_obj pend ''error'' = PStr ''authorization_pending''"
      and err: "traverse_obj resp ''error'' = err" "truthy err"
               "err \<noteq> PStr ''authorization_pending''" "err \<noteq> PStr ''expired_token''"
  shows "(\<exists>w'. authorize (k + 2 + n) E w =
                Some (Inl (ExtractorError (''Unhandled OAuth2 Error: '' @ py_str E err)), w') \<and>
              requests_to ''https://oauth2.googleapis.com/token'' (trace w') =
                replicate (k + 1) (poll_request dc))
         \<and>
         (py_getitem rd0 ''device_code'' = Inr dc0 \<and>
          server E0 (trace w0) (poll_request dc0) = Inr resp \<longrightarrow>
            authorize_poll (Suc m) E0 rd0 w0 =
              Some (Inl (ExtractorError (''Unhandled OAuth2 Error: '' @ py_str E0 err)),
                    to_screen (to_screen (log_event w0 (poll_request dc0)) ''\<newline>\<newline>'')
                      (py_str E0 resp)))"
    (is "?run \<and> ?step")
proof (rule conjI)
  show ?run
  proof -
    have "\<exists>w1. authorize (Suc (k + Suc n)) E w = authorize_poll (Suc n) E rd w1 \<and>
        adds w w1 [device_code_request] (replicate k (poll_request dc)) (replicate (Suc k) d) []"
      using srv _ _ rd iv pend
      by (rule authorize_pending_then)
        (simp_all add: dev polls start nth_response_append nth_response_replicate_lt)
    then obtain w1 where s1: "authorize (Suc (k + Suc n)) E w = authorize_poll (Suc n) E rd w1"
      and a1: "adds w w1 [device_code_request] (replicate k (poll_request dc)) (replicate (Suc k) d) []"
      by blast
    have "server E (trace w1) (poll_request dc) = Inr resp"
      using a1 by (simp add: scripted_poll[OF srv] adds_def polls start nth_response_append)
    from unhandled_step[OF rd(3) this err, of n]
    obtain w2 where s2: "authorize_poll (Suc n) E rd w1 =
        Some (Inl (ExtractorError (''Unhandled OAuth2 Error: '' @ py_str E err)), w2)"
      and a2: "adds w1 w2 [] [poll_request dc] [] []" by blast
    from adds_trans[OF a1 a2]
    have "requests_to ''https://oauth2.googleapis.com/token'' (trace w2) =
        replicate (k + 1) (poll_request dc)"
      by (simp add: adds_def start replicate_append_same)
    moreover have "k + 2 + n = Suc (k + Suc n)" by simp
    ultimately show ?thesis using s1 s2 by auto
  qed
  show ?step
    using poll_token_unhandled[of rd0 dc0 E0 w0 resp err] err by auto
qed

theorem authorize_unhandled_error_witness:
  "(\<exists>w'. authorize 3
          (mock_env (script_of [Inr device_response]
             [Inr (error_response ''authorization_pending''), Inr (error_response ''access_denied''),
              Inr token_response_ok] []))
          empty_world =
        Some (Inl (ExtractorError ''Unhandled OAuth2 Error: access_denied''), w') \<and>
        requests_to ''https://oauth2.googleapis.com/token'' (trace w') =
          [poll_request (PStr ''DEV-1''), poll_request (PStr ''DEV-1'')])
   \<and> authorize_poll (Suc 0)
         (mock_env (script_of [Inr device_response]
            [Inr (error_response ''authorization_pending''), Inr (error_response ''access_denied''),
             Inr token_response_ok] []))
         device_response (log_event empty_world (poll_request (PStr ''DEV-1''))) =
       Some (Inl (ExtractorError ''Unhandled OAuth2 Error: access_denied''),
             to_screen
               (to_screen
                 (log_event (log_event empty_world (poll_request (PStr ''DEV-1'')))
                   (poll_request (PStr ''DEV-1'')))
                 ''\<newline>\<newline>'')
               ''<object>'')"
proof -
  have fuel: "(1::nat) + 2 + 0 = 3" by simp
  show ?thesis
    using authorize_unhandled_error[of
      "mock_env (script_of [Inr device_response]
             [Inr (error_response ''authorization_pending''), Inr (error_response ''access_denied''),
              Inr token_response_ok] [])"
      "script_of [Inr device_response]
             [Inr (error_response ''authorization_pending''), Inr (error_response ''access_denied''),
              Inr token_response_ok] []"
      device_response "[]" 1 "error_response ''authorization_pending''"
      "error_response ''access_denied''" "[Inr token_response_ok]"
      empty_world
      "PStr ''https://www.google.com/device''" "PStr ''ABCD-EFGH''" "PStr ''DEV-1''" "PNum 5" 5
      "PStr ''access_denied''" 0
      device_response "PStr ''DEV-1''"
      "mock_env (script_of [Inr device_response]
             [Inr (error_response ''authorization_pending''), Inr (error_response ''access_denied''),
              Inr token_response_ok] [])"
      "log_event empty_world (poll_request (PStr ''DEV-1''))" 0, unfolded fuel]
    by (simp add: mock_env_def script_of_def scripted_def empty_world_def device_response_def
        error_response_def token_response_ok_def py_str_def requests_to_Cons
        del: authorize.simps authorize_poll.simps)
qed

section \<open>Claims about the cached token\<close>

lemma get_token_frame [simp]:
  "trace (snd (get_token w)) = trace w"
  "cache (snd (get_token w)) = cache w"
  "use_oauth2 (snd (get_token w)) = use_oauth2 w"
  by (simp_all add: get_token_def)

lemma validate_dict:
  "validate_token_data (PDict d) =
     Inr (map_of d ''access_token'' \<noteq> None \<and> map_of d ''expires'' \<noteq> None \<and>
          map_of d ''refresh_token'' \<noteq> None \<and> map_of d ''token_type'' \<noteq> None)"
  by (simp add: validate_token_data_def)

lemma initialize_cached_current:
  assumes "fst (get_token w) = PDict d"
      and "map_of d ''access_token'' = Some a" and "map_of d ''refresh_token'' = Some rt"
      and "map_of d ''token_type'' = Some tt"
      and "map_of d ''expires'' = Some x" and "py_num x = Some e"
      and "now E (trace w) + 60 \<le> e"
  shows "initialize_oauth n E w = Some (Inr (PDict d), snd (get_token w))"
proof -
  from assms(2) have "d \<noteq> []" by auto
  then have "check_cached (snd (get_token w)) (PDict d) = (Inr (PDict d), snd (get_token w))"
    using assms(2-5) by (simp add: check_cached_def validate_dict)
  moreover have "authorize_if_missing n E (snd (get_token w)) (PDict d) =
      Some (Inr (PDict d), snd (get_token w))"
    using \<open>d \<noteq> []\<close> by (simp add: authorize_if_missing_def)
  moreover have "refresh_if_expiring n E (snd (get_token w)) (PDict d) =
      Some (Inr (PDict d), snd (get_token w))"
    using assms(5-7) by (simp add: refresh_if_expiring_def py_less_def)
  ultimately show ?thesis
    using assms(1) by (simp add: initialize_oauth_def)
qed

lemma map_of_dict_pop: "map_of (dict_pop k h) = (map_of h)(k := None)"
  by (simp add: dict_pop_def delete_conv')

lemma map_of_dict_update_single: "map_of (dict_update h [(k, v)]) = (map_of h)(k \<mapsto> v)"
  by (simp add: dict_update_def update_conv')

text \<open>C2. When the network location of the request's URL does not end with
  \<^verbatim>\<open>youtube.com\<close>, \<^verbatim>\<open>handle_oauth\<close> returns with the request and the state as they
  were. When it does, the cached record is valid and not within 60 seconds of its
  expiry, and the request carries an \<^verbatim>\<open>Authorization\<close> header, \<^verbatim>\<open>handle_oauth\<close> warns
  once, removes \<^verbatim>\<open>X-Goog-PageId\<close>, \<^verbatim>\<open>X-Goog-AuthUser\<close>, the old \<^verbatim>\<open>Authorization\<close>,
  \<^verbatim>\<open>X-Origin\<close> and \<^verbatim>\<open>X-Youtube-Identity-Token\<close>, and sets \<^verbatim>\<open>Authorization\<close> to
  the record's \<^verbatim>\<open>token_type\<close>, a space and its \<^verbatim>\<open>access_token\<close>; every other header
  keeps its value, and no request is sent.\<close>

theorem handle_oauth_headers:
  "(\<not> endswith (netloc_of E (url req)) ''youtube.com'' \<longrightarrow>
      handle_oauth n E w req = Some (Inr (), req, w))
   \<and>
   (endswith (netloc_of E (url req)) ''youtube.com'' \<and>
    fst (get_token w) = PDict d \<and>
    map_of d ''access_token'' = Some a \<and> map_of d ''refresh_token'' = Some rt \<and>
    map_of d ''token_type'' = Some tt \<and> map_of d ''expires'' = Some x \<and>
    py_num x = Some e \<and> now E (trace w) + 60 \<le> e \<and>
    map_of (headers req) ''Authorization'' = Some cookie_auth \<longrightarrow>
      (\<exists>h. handle_oauth n E w req =
             Some (Inr (), req\<lparr>headers := h\<rparr>,
                   report_warning (snd (get_token w))
                     (''Youtube cookies have been provided, but OAuth2 is being used.''
                       @ '' If you encounter problems, stop providing Youtube cookies to yt-dlp.''))
           \<and> map_of h ''Authorization'' = Some (PStr (py_str E tt @ '' '' @ py_str E a))
           \<and> map_of h ''X-Origin'' = None \<and> map_of h ''X-Goog-PageId'' = None
           \<and> map_of h ''X-Goog-AuthUser'' = None \<and> map_of h ''X-Youtube-Identity-Token'' = None
           \<and> (\<forall>k. k \<notin> {''Authorization'', ''X-Origin'', ''X-Goog-PageId'', ''X-Goog-AuthUser'',
                         ''X-Youtube-Identity-Token''} \<longrightarrow>
                  map_of h k = map_of (headers req) k)))"
proof (intro conjI impI)
  assume "\<not> endswith (netloc_of E (url req)) ''youtube.com''"
  then show "handle_oauth n E w req = Some (Inr (), req, w)"
    by (simp add: handle_oauth_def)
next
  assume h: "endswith (netloc_of E (url req)) ''youtube.com'' \<and>
    fst (get_token w) = PDict d \<and>
    map_of d ''access_token'' = Some a \<and> map_of d ''refresh_token'' = Some rt \<and>
    map_of d ''token_type'' = Some tt \<and> map_of d ''expires'' = Some x \<and>
    py_num x = Some e \<and> now E (trace w) + 60 \<le> e \<and>
    map_of (headers req) ''Authorization'' = Some cookie_auth"
  then have init: "initialize_oauth n E w = Some (Inr (PDict d), snd (get_token w))"
    by (intro initialize_cached_current) auto
  let ?h = "dict_update
      (dict_pop ''X-Youtube-Identity-Token''
        (dict_pop ''X-Origin''
          (dict_pop ''Authorization''
            (dict_pop ''X-Goog-AuthUser'' (dict_pop ''X-Goog-PageId'' (headers req))))))
      [(''Authorization'', PStr (py_str E tt @ '' '' @ py_str E a))]"
  have "handle_oauth n E w req =
      Some (Inr (), req\<lparr>headers := ?h\<rparr>,
            report_warning (snd (get_token w))
              (''Youtube cookies have been provided, but OAuth2 is being used.''
                @ '' If you encounter problems, stop providing Youtube cookies to yt-dlp.''))"
    using h init by (simp add: handle_oauth_def Let_def map_of_dict_pop)
  moreover have "map_of ?h =
      (\<lambda>k. if k = ''Authorization'' then Some (PStr (py_str E tt @ '' '' @ py_str E a))
           else if k \<in> {''X-Origin'', ''X-Goog-PageId'', ''X-Goog-AuthUser'',
                        ''X-Youtube-Identity-Token''} then None
           else map_of (headers req) k)"
    by (rule ext) (simp add: map_of_dict_update_single map_of_dict_pop)
  ultimately show "\<exists>h. handle_oauth n E w req =
             Some (Inr (), req\<lparr>headers := h\<rparr>,
                   report_warning (snd (get_token w))
                     (''Youtube cookies have been provided, but OAuth2 is being used.''
                       @ '' If you encounter problems, stop providing Youtube cookies to yt-dlp.''))
           \<and> map_of h ''Authorization'' = Some (PStr (py_str E tt @ '' '' @ py_str E a))
           \<and> map_of h ''X-Origin'' = None \<and> map_of h ''X-Goog-PageId'' = None
           \<and> map_of h ''X-Goog-AuthUser'' = None \<and> map_of h ''X-Youtube-Identity-Token'' = None
           \<and> (\<forall>k. k \<notin> {''Authorization'', ''X-Origin'', ''X-Goog-PageId'', ''X-Goog-AuthUser'',
                         ''X-Youtube-Identity-Token''} \<longrightarrow>
                  map_of h k = map_of (headers req) k)"
    by (intro exI[of _ ?h]) simp
qed

theorem handle_oauth_headers_witness:
  "handle_oauth 0 (mock_env (script_of [] [] [])) (cached_world (stored_record 5000))
     (cookie_request ''https://unrelated.example.com/watch'')
   = Some (Inr (), cookie_request ''https://unrelated.example.com/watch'',
           cached_world (stored_record 5000))
   \<and> (\<exists>h. handle_oauth 0 (mock_env (script_of [] [] [])) (cached_world (stored_record 5000))
            (cookie_request ''https://www.youtube.com/youtubei/v1/player'')
          = Some (Inr (), (cookie_request ''https://www.youtube.com/youtubei/v1/player'')\<lparr>headers := h\<rparr>,
                  report_warning (snd (get_token (cached_world (stored_record 5000))))
                    (''Youtube cookies have been provided, but OAuth2 is being used.''
                      @ '' If you encounter problems, stop providing Youtube cookies to yt-dlp.''))
          \<and> map_of h ''Authorization'' = Some (PStr ''Bearer AT-0'')
          \<and> map_of h ''X-Origin'' = None \<and> map_of h ''X-Goog-PageId'' = None
          \<and> map_of h ''X-Goog-AuthUser'' = None \<and> map_of h ''X-Youtube-Identity-Token'' = None
          \<and> map_of h ''User-Agent'' = Some (PStr ''Mozilla/5.0''))"
proof -
  have far: "\<not> endswith (netloc_of (mock_env (script_of [] [] []))
      (url (cookie_request ''https://unrelated.example.com/watch''))) ''youtube.com''"
    by (simp add: mock_env_def cookie_request_def endswith_def)
  have near: "endswith (netloc_of (mock_env (script_of [] [] []))
      (url (cookie_request ''https://www.youtube.com/youtubei/v1/player''))) ''youtube.com''"
    by (simp add: mock_env_def cookie_request_def endswith_def)
  have tok: "fst (get_token (cached_world (stored_record 5000))) =
      PDict [(''access_token'', PStr ''AT-0''), (''expires'', PNum 5000),
             (''refresh_token'', PStr ''RT-0''), (''token_type'', PStr ''Bearer'')]"
    by (simp add: get_token_def cached_world_def cache_load_def stored_record_def)
  have clock: "now (mock_env (script_of [] [] [])) (trace (cached_world (stored_record 5000))) + 60
      \<le> 5000"
    by (simp add: mock_env_def cached_world_def)
  have hdr: "map_of (headers (cookie_request ''https://www.youtube.com/youtubei/v1/player''))
      ''Authorization'' = Some (PStr ''SAPISIDHASH 1_abc'')"
    "map_of (headers (cookie_request ''https://www.youtube.com/youtubei/v1/player''))
      ''User-Agent'' = Some (PStr ''Mozilla/5.0'')"
    by (simp_all add: cookie_request_def)
  from handle_oauth_headers[of "mock_env (script_of [] [] [])"
      "cookie_request ''https://unrelated.example.com/watch''" 0
      "cached_world (stored_record 5000)"] far
  have one: "handle_oauth 0 (mock_env (script_of [] [] [])) (cached_world (stored_record 5000))
     (cookie_request ''https://unrelated.example.com/watch'')
   = Some (Inr (), cookie_request ''https://unrelated.example.com/watch'',
           cached_world (stored_record 5000))"
    by blast
  let ?d = "[(''access_token'', PStr ''AT-0''), (''expires'', PNum 5000),
        (''refresh_token'', PStr ''RT-0''), (''token_type'', PStr ''Bearer'')]"
  let ?req = "cookie_request ''https://www.youtube.com/youtubei/v1/player''"
  have fields: "map_of ?d ''access_token'' = Some (PStr ''AT-0'')"
    "map_of ?d ''refresh_token'' = Some (PStr ''RT-0'')"
    "map_of ?d ''token_type'' = Some (PStr ''Bearer'')"
    "map_of ?d ''expires'' = Some (PNum 5000)"
    "py_num (PNum 5000) = Some 5000"
    by simp_all
  have hyps: "endswith (netloc_of (mock_env (script_of [] [] [])) (url ?req)) ''youtube.com'' \<and>
    fst (get_token (cached_world (stored_record 5000))) = PDict ?d \<and>
    map_of ?d ''access_token'' = Some (PStr ''AT-0'') \<and>
    map_of ?d ''refresh_token'' = Some (PStr ''RT-0'') \<and>
    map_of ?d ''token_type'' = Some (PStr ''Bearer'') \<and>
    map_of ?d ''expires'' = Some (PNum 5000) \<and>
    py_num (PNum 5000) = Some 5000 \<and>
    now (mock_env (script_of [] [] [])) (trace (cached_world (stored_record 5000))) + 60 \<le> 5000 \<and>
    map_of (headers ?req) ''Authorization'' = Some (PStr ''SAPISIDHASH 1_abc'')"
    using near tok fields clock hdr(1) by (intro conjI)
  note ex = handle_oauth_headers[of "mock_env (script_of [] [] [])" ?req 0
      "cached_world (stored_record 5000)" ?d
      "PStr ''AT-0''" "PStr ''RT-0''" "PStr ''Bearer''" "PNum 5000" 5000
      "PStr ''SAPISIDHASH 1_abc''", THEN conjunct2, THEN mp, OF hyps]
  from ex obtain h where h: "handle_oauth 0 (mock_env (script_of [] [] [])) (cached_world (stored_record 5000)) ?req =
             Some (Inr (), ?req\<lparr>headers := h\<rparr>,
                   report_warning (snd (get_token (cached_world (stored_record 5000))))
                     (''Youtube cookies have been provided, but OAuth2 is being used.''
                       @ '' If you encounter problems, stop providing Youtube cookies to yt-dlp.''))"
    and auth: "map_of h ''Authorization'' =
               Some (PStr (py_str (mock_env (script_of [] [] [])) (PStr ''Bearer'') @ '' '' @
                           py_str (mock_env (script_of [] [] [])) (PStr ''AT-0'')))"
    and gone: "map_of h ''X-Origin'' = None" "map_of h ''X-Goog-PageId'' = None"
      "map_of h ''X-Goog-AuthUser'' = None" "map_of h ''X-Youtube-Identity-Token'' = None"
    and rest: "\<forall>k. k \<notin> {''Authorization'', ''X-Origin'', ''X-Goog-PageId'', ''X-Goog-AuthUser'',
                         ''X-Youtube-Identity-Token''} \<longrightarrow>
                  map_of h k = map_of (headers ?req) k"
    by (elim exE conjE)
  from rest have "map_of h ''User-Agent'' = map_of (headers ?req) ''User-Agent''"
    by simp
  with hdr(2) have ua: "map_of h ''User-Agent'' = Some (PStr ''Mozilla/5.0'')" by simp
  from auth have auth': "map_of h ''Authorization'' = Some (PStr ''Bearer AT-0'')" by simp
  from h auth' gone ua have "\<exists>h. handle_oauth 0 (mock_env (script_of [] [] [])) (cached_world (stored_record 5000)) ?req
          = Some (Inr (), ?req\<lparr>headers := h\<rparr>,
                  report_warning (snd (get_token (cached_world (stored_record 5000))))
                    (''Youtube cookies have been provided, but OAuth2 is being used.''
                      @ '' If you encounter problems, stop providing Youtube cookies to yt-dlp.''))
          \<and> map_of h ''Authorization'' = Some (PStr ''Bearer AT-0'')
          \<and> map_of h ''X-Origin'' = None \<and> map_of h ''X-Goog-PageId'' = None
          \<and> map_of h ''X-Goog-AuthUser'' = None \<and> map_of h ''X-Youtube-Identity-Token'' = None
          \<and> map_of h ''User-Agent'' = Some (PStr ''Mozilla/5.0'')"
    by (intro exI[of _ h] conjI)
  with one show ?thesis by (intro conjI)
qed

section \<open>The record that the token lifecycle returns\<close>

lemma good_record_mono: "good_record lo r \<Longrightarrow> lo' \<le> lo \<Longrightarrow> good_record lo' r"
  by (auto simp: good_record_def split: pyval.splits option.splits)

lemma mono_clock_prefix: "mono_clock E \<Longrightarrow> prefix t t' \<Longrightarrow> now E t \<le> now E t'"
  by (auto simp: mono_clock_def prefix_def)

lemma quiet_clock: "mono_clock E \<Longrightarrow> quiet w w' \<Longrightarrow> now E (trace w) \<le> now E (trace w')"
  by (auto simp: quiet_def intro: mono_clock_prefix)

lemma authorize_record_Inr:
  assumes "authorize_record t resp = Inr td"
  shows "\<exists>ds a x secs r tt. resp = PDict ds \<and> map_of ds ''access_token'' = Some a \<and>
           map_of ds ''expires_in'' = Some x \<and> py_num x = Some secs \<and>
           td = PDict [(''access_token'', a), (''expires'', PNum (t + secs)),
                       (''refresh_token'', r), (''token_type'', tt)]"
proof -
  from assms obtain a where a: "py_getitem resp ''access_token'' = Inr a"
    by (auto simp: authorize_record_def split: sum.splits)
  then obtain ds where ds: "resp = PDict ds" "map_of ds ''access_token'' = Some a"
    by (auto dest: py_getitem_Inr)
  from assms a obtain x where x: "py_getitem resp ''expires_in'' = Inr x"
    by (auto simp: authorize_record_def split: sum.splits)
  from assms a x obtain secs where secs: "py_num x = Some secs"
    by (auto simp: authorize_record_def timestamp_plus_def split: sum.splits option.splits)
  from assms a x secs obtain r where r: "py_getitem resp ''refresh_token'' = Inr r"
    by (auto simp: authorize_record_def timestamp_plus_def split: sum.splits)
  from assms a x secs r obtain tt where tt: "py_getitem resp ''token_type'' = Inr tt"
    by (auto simp: authorize_record_def timestamp_plus_def split: sum.splits)
  from assms a x secs r tt
  have "td = PDict [(''access_token'', a), (''expires'', PNum (t + secs)),
                    (''refresh_token'', r), (''token_type'', tt)]"
    by (simp add: authorize_record_def timestamp_plus_def)
  moreover from x ds have "map_of ds ''expires_in'' = Some x"
    by (auto split: option.splits)
  ultimately show ?thesis using ds secs by blast
qed

lemma refresh_record_Inr:
  assumes "refresh_record t resp rt = Inr td"
  shows "\<exists>ds a x secs r tt. resp = PDict ds \<and> map_of ds ''access_token'' = Some a \<and>
           map_of ds ''expires_in'' = Some x \<and> py_num x = Some secs \<and>
           td = PDict [(''access_token'', a), (''expires'', PNum (t + secs)),
                       (''token_type'', tt), (''refresh_token'', r)]"
proof -
  from assms obtain a where a: "py_getitem resp ''access_token'' = Inr a"
    by (auto simp: refresh_record_def split: sum.splits)
  then obtain ds where ds: "resp = PDict ds" "map_of ds ''access_token'' = Some a"
    by (auto dest: py_getitem_Inr)
  from assms a obtain x where x: "py_getitem resp ''expires_in'' = Inr x"
    by (auto simp: refresh_record_def split: sum.splits)
  from assms a x obtain secs where secs: "py_num x = Some secs"
    by (auto simp: refresh_record_def timestamp_plus_def split: sum.splits option.splits)
  from assms a x secs obtain tt where tt: "py_getitem resp ''token_type'' = Inr tt"
    by (auto simp: refresh_record_def timestamp_plus_def split: sum.splits)
  from assms a x secs tt obtain r where r: "py_get resp ''refresh_token'' rt = Inr r"
    by (auto simp: refresh_record_def timestamp_plus_def split: sum.splits)
  from assms a x secs r tt
  have "td = PDict [(''access_token'', a), (''expires'', PNum (t + secs)),
                    (''token_type'', tt), (''refresh_token'', r)]"
    by (simp add: refresh_record_def timestamp_plus_def)
  moreover from x ds have "map_of ds ''expires_in'' = Some x"
    by (auto split: option.splits)
  ultimately show ?thesis using ds secs by blast
qed

lemma fresh_record:
  assumes mono: "mono_clock E" and fresh: "fresh_tokens E"
      and srv: "server E t0 req = Inr (PDict ds)"
      and fields: "map_of ds ''access_token'' = Some a" "map_of ds ''expires_in'' = Some x"
        "py_num x = Some secs"
      and td: "map_of d ''access_token'' \<noteq> None" "map_of d ''refresh_token'' \<noteq> None"
        "map_of d ''token_type'' \<noteq> None" "map_of d ''expires'' = Some (PNum (now E t1 + secs))"
      and t: "prefix t t1"
  shows "good_record (now E t + 60) (PDict d)"
proof -
  from fresh srv fields have "60 \<le> secs"
    unfolding fresh_tokens_def by fastforce
  moreover from mono t have "now E t \<le> now E t1" by (rule mono_clock_prefix)
  ultimately show ?thesis using td by (simp add: good_record_def)
qed

lemma poll_token_good:
  assumes mono: "mono_clock E" and fresh: "fresh_tokens E"
      and step: "poll_token E rd w = (Inr (Return td), w1)"
  shows "good_record (now E (trace w) + 60) td"
proof -
  from step obtain dc where dc: "py_getitem rd ''device_code'' = Inr dc"
    by (auto simp: poll_token_def split: sum.splits)
  from step dc obtain resp where resp: "server E (trace w) (poll_request dc) = Inr resp"
    by (auto simp: poll_token_def execute_request_poll split: sum.splits)
  let ?w3 = "to_screen
      (to_screen (to_screen (log_event w (poll_request dc)) ''\<newline>\<newline>'') (py_str E resp))
      ''Authorization successful''"
  from step have rec: "authorize_record (now E (trace ?w3)) resp = Inr td"
    unfolding poll_token_response[OF dc resp]
    by (auto simp: Let_def split: if_splits sum.splits prod.splits)
  from authorize_record_Inr[OF rec]
  obtain ds a x secs r tt where f: "resp = PDict ds" "map_of ds ''access_token'' = Some a"
      "map_of ds ''expires_in'' = Some x" "py_num x = Some secs"
      "td = PDict [(''access_token'', a), (''expires'', PNum (now E (trace ?w3) + secs)),
                   (''refresh_token'', r), (''token_type'', tt)]"
    by blast
  show ?thesis
    unfolding f(5)
    by (rule fresh_record[OF mono fresh resp[unfolded f(1)] f(2-4), where ?t1.0 = "trace ?w3"])
       simp_all
qed

lemma authorize_good_aux:
  assumes mono: "mono_clock E" and fresh: "fresh_tokens E"
  shows "(\<forall>w td w'. authorize n E w = Some (Inr td, w') \<longrightarrow> good_record (now E (trace w) + 60) td) \<and>
         (\<forall>rd w td w'. authorize_poll n E rd w = Some (Inr td, w') \<longrightarrow>
            good_record (now E (trace w) + 60) td)"
proof (induction n)
  case 0
  show ?case by simp
next
  case (Suc n)
  have IH1: "good_record (now E (trace w) + 60) td"
    if "authorize n E w = Some (Inr td, w')" for w td w'
    using Suc that by blast
  have IH2: "good_record (now E (trace w) + 60) td"
    if "authorize_poll n E rd w = Some (Inr td, w')" for rd w td w'
    using Suc that by blast
  show ?case
  proof (intro conjI allI impI)
    fix w td w'
    assume a: "authorize (Suc n) E w = Some (Inr td, w')"
    obtain r1 w1 where rd: "request_device_code E w = (r1, w1)"
      by (cases "request_device_code E w")
    have q1: "quiet w w1"
      using holdsD[OF request_device_code_quiet rd] .
    from a rd obtain x where "r1 = Inr x" and "authorize_poll n E x w1 = Some (Inr td, w')"
      by (cases r1) auto
    from IH2[OF this(2)] have "good_record (now E (trace w1) + 60) td" .
    then show "good_record (now E (trace w) + 60) td"
      using quiet_clock[OF mono q1] by (auto elim: good_record_mono)
  next
    fix rd w td w'
    assume a: "authorize_poll (Suc n) E rd w = Some (Inr td, w')"
    obtain r1 w1 where pt: "poll_token E rd w = (r1, w1)"
      by (cases "poll_token E rd w")
    have q1: "quiet w w1"
      using holdsD[OF poll_token_quiet pt] .
    from a pt obtain out where out: "r1 = Inr out"
      by (cases r1) auto
    show "good_record (now E (trace w) + 60) td"
    proof (cases out)
      case Continue
      with a pt out have "authorize_poll n E rd w1 = Some (Inr td, w')" by simp
      from IH2[OF this] show ?thesis
        using quiet_clock[OF mono q1] by (auto elim: good_record_mono)
    next
      case Restart
      with a pt out have "authorize n E w1 = Some (Inr td, w')" by simp
      from IH1[OF this] show ?thesis
        using quiet_clock[OF mono q1] by (auto elim: good_record_mono)
    next
      case (Return rec)
      with a pt out have "rec = td" by simp
      with pt out Return show ?thesis
        using poll_token_good[OF mono fresh] by simp
    qed
  qed
qed

lemma authorize_good:
  "mono_clock E \<Longrightarrow> fresh_tokens E \<Longrightarrow> authorize n E w = Some (Inr td, w') \<Longrightarrow>
   good_record (now E (trace w) + 60) td"
  using authorize_good_aux by blast

lemma trace_store_token [simp]: "trace (store_token w td) = trace w"
  by (simp add: store_token_def)

lemma refresh_token_good:
  assumes mono: "mono_clock E" and fresh: "fresh_tokens E"
      and run: "refresh_token n E w rt = Some (Inr td, w')"
  shows "good_record (now E (trace w) + 60) td"
proof (cases "server E (trace w) (refresh_request rt)")
  case (Inl e)
  with run show ?thesis
    by (simp add: refresh_token_def download_json_eq refresh_request_def[symmetric])
next
  case (Inr resp)
  let ?w1 = "log_event w (refresh_request rt)"
  show ?thesis
  proof (cases "truthy (traverse_obj resp ''error'')")
    case True
    let ?w2 = "report_warning ?w1
       (''Failed to refresh access token: '' @ py_str E (traverse_obj resp ''error'')
         @ ''. Restarting authorization flow'')"
    from run Inr True have "authorize n E ?w2 = Some (Inr td, w')"
      by (simp add: refresh_token_def download_json_eq refresh_request_def[symmetric])
    from authorize_good[OF mono fresh this]
    have "good_record (now E (trace ?w2) + 60) td" .
    moreover have "now E (trace w) \<le> now E (trace ?w2)"
      by (rule mono_clock_prefix[OF mono]) simp
    ultimately show ?thesis by (auto elim: good_record_mono)
  next
    case False
    with run Inr have rec: "refresh_record (now E (trace ?w1)) resp rt = Inr td"
      by (auto simp: refresh_token_def download_json_eq refresh_request_def[symmetric]
          split: sum.splits)
    from refresh_record_Inr[OF rec]
    obtain ds a x secs r tt where f: "resp = PDict ds" "map_of ds ''access_token'' = Some a"
        "map_of ds ''expires_in'' = Some x" "py_num x = Some secs"
        "td = PDict [(''access_token'', a), (''expires'', PNum (now E (trace ?w1) + secs)),
                     (''token_type'', tt), (''refresh_token'', r)]"
      by blast
    show ?thesis
      unfolding f(5)
      by (rule fresh_record[OF mono fresh Inr[unfolded f(1)] f(2-4), where ?t1.0 = "trace ?w1"])
         simp_all
  qed
qed

lemma refresh_token_one_request:
  assumes "refresh_token n E w rt = Some (r, w')"
  shows "requests_to ''https://www.youtube.com/o/oauth2/token'' (trace w') =
         requests_to ''https://www.youtube.com/o/oauth2/token'' (trace w) @ [refresh_request rt]"
proof -
  let ?w1 = "log_event w (refresh_request rt)"
  have one: "requests_to ''https://www.youtube.com/o/oauth2/token'' (trace ?w1) =
      requests_to ''https://www.youtube.com/o/oauth2/token'' (trace w) @ [refresh_request rt]"
    by (simp add: requests_to_Cons)
  show ?thesis
  proof (cases "server E (trace w) (refresh_request rt)")
    case (Inl e)
    with assms have "w' = ?w1"
      by (simp add: refresh_token_def download_json_eq refresh_request_def[symmetric])
    with one show ?thesis by simp
  next
    case (Inr resp)
    show ?thesis
    proof (cases "truthy (traverse_obj resp ''error'')")
      case True
      let ?w2 = "report_warning ?w1
         (''Failed to refresh access token: '' @ py_str E (traverse_obj resp ''error'')
           @ ''. Restarting authorization flow'')"
      from assms Inr True have "authorize n E ?w2 = Some (r, w')"
        by (simp add: refresh_token_def download_json_eq refresh_request_def[symmetric])
      then have "quiet ?w2 w'" by (rule authorize_quiet)
      then have "requests_to ''https://www.youtube.com/o/oauth2/token'' (trace w') =
          requests_to ''https://www.youtube.com/o/oauth2/token'' (trace ?w2)"
        by (simp only: quiet_def)
      also have "\<dots> = requests_to ''https://www.youtube.com/o/oauth2/token'' (trace ?w1)"
        by (simp add: requests_to_Cons)
      finally show ?thesis using one by simp
    next
      case False
      with assms Inr have "w' = ?w1"
        by (auto simp: refresh_token_def download_json_eq refresh_request_def[symmetric]
            split: sum.splits)
      with one show ?thesis by simp
    qed
  qed
qed

lemma check_cached_Inr:
  assumes "check_cached w td0 = (Inr td1, w1)"
  shows "prefix (trace w) (trace w1) \<and> (truthy td1 \<longrightarrow> validate_token_data td1 = Inr True)"
  using assms by (auto simp: check_cached_def split: if_splits sum.splits)

lemma authorize_if_missing_Inr:
  assumes mono: "mono_clock E" and fresh: "fresh_tokens E"
      and run: "authorize_if_missing n E w1 td1 = Some (Inr td2, w2)"
  shows "prefix (trace w1) (trace w2) \<and>
         ((truthy td1 \<and> td2 = td1) \<or> good_record (now E (trace w1) + 60) td2)"
proof (cases "truthy td1")
  case True
  with run show ?thesis by (simp add: authorize_if_missing_def)
next
  case False
  with run obtain w2' where a: "authorize n E w1 = Some (Inr td2, w2')" and w2: "w2 = store_token w2' td2"
    by (auto simp: authorize_if_missing_def split: option.splits sum.splits prod.splits)
  from authorize_quiet[OF a] w2 have "prefix (trace w1) (trace w2)"
    by (simp add: quiet_def)
  with authorize_good[OF mono fresh a] show ?thesis by simp
qed

lemma refresh_if_expiring_Inr:
  assumes mono: "mono_clock E" and fresh: "fresh_tokens E"
      and run: "refresh_if_expiring n E w2 td2 = Some (Inr td, w')"
      and keys: "validate_token_data td2 = Inr True \<or> good_record lo td2"
  shows "good_record (now E (trace w2) + 60) td"
proof -
  from run obtain x where x: "py_getitem td2 ''expires'' = Inr x"
    by (auto simp: refresh_if_expiring_def split: sum.splits)
  then obtain d where d: "td2 = PDict d" "map_of d ''expires'' = Some x"
    by (auto dest: py_getitem_Inr)
  from run x obtain e where e: "py_num x = Some e"
    by (auto simp: refresh_if_expiring_def py_less_def split: sum.splits option.splits)
  from keys d have k: "map_of d ''access_token'' \<noteq> None" "map_of d ''refresh_token'' \<noteq> None"
      "map_of d ''token_type'' \<noteq> None"
    by (auto simp: validate_dict good_record_def)
  show ?thesis
  proof (cases "e < now E (trace w2) + 60")
    case True
    let ?w3 = "to_screen w2 ''Access token expired, refreshing''"
    from run x e True obtain rt where rt: "py_getitem td2 ''refresh_token'' = Inr rt"
      by (auto simp: refresh_if_expiring_def py_less_def split: sum.splits)
    from run x e True rt obtain w4 where "refresh_token n E ?w3 rt = Some (Inr td, w4)"
      by (auto simp: refresh_if_expiring_def py_less_def split: sum.splits option.splits prod.splits)
    from refresh_token_good[OF mono fresh this]
    have "good_record (now E (trace ?w3) + 60) td" .
    moreover have "now E (trace w2) \<le> now E (trace ?w3)"
      by (rule mono_clock_prefix[OF mono]) simp
    ultimately show ?thesis by (auto elim: good_record_mono)
  next
    case False
    with run x e have "td = td2"
      by (simp add: refresh_if_expiring_def py_less_def)
    with d k e False show ?thesis by (simp add: good_record_def)
  qed
qed

lemma initialize_oauth_good:
  assumes mono: "mono_clock E" and fresh: "fresh_tokens E"
      and run: "initialize_oauth n E w = Some (Inr td, w')"
  shows "good_record (now E (trace w) + 60) td"
proof -
  obtain r1 w1 where c: "check_cached (snd (get_token w)) (fst (get_token w)) = (r1, w1)"
    by (cases "check_cached (snd (get_token w)) (fst (get_token w))")
  from run c obtain td1 where r1: "r1 = Inr td1"
    by (cases r1) (auto simp: initialize_oauth_def)
  from run c r1 obtain td2 w2 where
    a: "authorize_if_missing n E w1 td1 = Some (Inr td2, w2)" and
    r: "refresh_if_expiring n E w2 td2 = Some (Inr td, w')"
    by (auto simp: initialize_oauth_def split: option.splits sum.splits prod.splits)
  from check_cached_Inr[OF c[unfolded r1]]
  have p1: "prefix (trace w) (trace w1)" and v1: "truthy td1 \<longrightarrow> validate_token_data td1 = Inr True"
    by simp_all
  from authorize_if_missing_Inr[OF mono fresh a]
  have p2: "prefix (trace w1) (trace w2)"
    and k2: "(truthy td1 \<and> td2 = td1) \<or> good_record (now E (trace w1) + 60) td2"
    by simp_all
  from k2 v1 have "validate_token_data td2 = Inr True \<or> good_record (now E (trace w1) + 60) td2"
    by auto
  from refresh_if_expiring_Inr[OF mono fresh r this]
  have "good_record (now E (trace w2) + 60) td" .
  moreover from p1 p2 have "prefix (trace w) (trace w2)" by (rule prefix_order.trans)
  then have "now E (trace w) \<le> now E (trace w2)" by (rule mono_clock_prefix[OF mono])
  ultimately show ?thesis by (auto elim: good_record_mono)
qed

lemma initialize_cached_expiring:
  assumes tok: "fst (get_token w) = PDict d"
      and d: "map_of d ''access_token'' = Some a" "map_of d ''refresh_token'' = Some rt"
        "map_of d ''token_type'' = Some tt" "map_of d ''expires'' = Some x" "py_num x = Some e"
      and exp: "e < now E (trace w) + 60"
  shows "initialize_oauth n E w =
     (case refresh_token n E (to_screen (snd (get_token w)) ''Access token expired, refreshing'') rt of
        None \<Rightarrow> None
      | Some (Inl err, w1) \<Rightarrow> Some (Inl err, w1)
      | Some (Inr new_token_data, w1) \<Rightarrow> Some (Inr new_token_data, store_token w1 new_token_data))"
proof -
  from d(1) have "d \<noteq> []" by auto
  then have "check_cached (snd (get_token w)) (PDict d) = (Inr (PDict d), snd (get_token w))"
    using d by (simp add: check_cached_def validate_dict)
  moreover have "authorize_if_missing n E (snd (get_token w)) (PDict d) =
      Some (Inr (PDict d), snd (get_token w))"
    using \<open>d \<noteq> []\<close> by (simp add: authorize_if_missing_def)
  moreover have "refresh_if_expiring n E (snd (get_token w)) (PDict d) =
     (case refresh_token n E (to_screen (snd (get_token w)) ''Access token expired, refreshing'') rt of
        None \<Rightarrow> None
      | Some (Inl err, w1) \<Rightarrow> Some (Inl err, w1)
      | Some (Inr new_token_data, w1) \<Rightarrow> Some (Inr new_token_data, store_token w1 new_token_data))"
    using d exp by (simp add: refresh_if_expiring_def py_less_def)
  ultimately show ?thesis
    using tok by (simp add: initialize_oauth_def)
qed

lemma refresh_token_ok:
  assumes "server E (trace w) (refresh_request rt) = Inr (PDict d)"
      and "map_of d ''error'' = None"
      and "map_of d ''access_token'' = Some a"
      and "map_of d ''expires_in'' = Some x" and "py_num x = Some secs"
      and "map_of d ''token_type'' = Some tt"
  shows "refresh_token n E w rt =
     Some (Inr (PDict [(''access_token'', a),
                       (''expires'', PNum (now E (trace w @ [refresh_request rt]) + secs)),
                       (''token_type'', tt),
                       (''refresh_token'',
                          case map_of d ''refresh_token'' of None \<Rightarrow> rt | Some r \<Rightarrow> r)]),
           log_event w (refresh_request rt))"
  using assms
  by (simp add: refresh_token_def download_json_eq refresh_request_def[symmetric]
      refresh_record_def timestamp_plus_def split: option.split)

lemma nth_response_mem: "nth_response rs k = Inr v \<Longrightarrow> Inr v \<in> set rs"
proof (induction rs k rule: nth_response.induct)
  case (1 k)
  then show ?case by simp
next
  case (2 r rs)
  then show ?case by simp
next
  case (3 r rs k)
  then show ?case by simp
qed

lemma fresh_tokens_scripted:
  assumes srv: "server E = scripted script"
      and ok: "\<And>u d x. Inr (PDict d) \<in> set (script u) \<Longrightarrow> map_of d ''access_token'' \<noteq> None \<Longrightarrow>
                 map_of d ''expires_in'' = Some x \<Longrightarrow> \<exists>secs. py_num x = Some secs \<and> 60 \<le> secs"
  shows "fresh_tokens E"
  unfolding fresh_tokens_def
proof (intro allI impI)
  fix t req d x
  assume r: "server E t req = Inr (PDict d)" and a: "map_of d ''access_token'' \<noteq> None"
    and x: "map_of d ''expires_in'' = Some x"
  from r srv obtain u where "Inr (PDict d) \<in> set (script u)"
    by (auto simp: scripted_def split: option.splits dest: nth_response_mem)
  from ok[OF this a x] show "\<exists>secs. py_num x = Some secs \<and> 60 \<le> secs" .
qed

lemma mono_clock_mock: "mono_clock (mock_env script)"
  by (simp add: mono_clock_def mock_env_def)

lemma fresh_tokens_mock:
  assumes "\<And>u d x. Inr (PDict d) \<in> set (script u) \<Longrightarrow> map_of d ''access_token'' \<noteq> None \<Longrightarrow>
             map_of d ''expires_in'' = Some x \<Longrightarrow> \<exists>secs. py_num x = Some secs \<and> 60 \<le> secs"
  shows "fresh_tokens (mock_env script)"
  using assms by (intro fresh_tokens_scripted[where script = script]) (simp_all add: mock_env_def)


lemma authorize_grants:
  assumes srv: "server E = scripted script"
      and dev: "script ''https://oauth2.googleapis.com/device/code'' = Inr rd # others"
      and polls: "script ''https://oauth2.googleapis.com/token'' =
                    replicate k (Inr pend) @ [Inr (PDict ds)]"
      and start: "requests_to ''https://oauth2.googleapis.com/device/code'' (trace w) = []"
                 "requests_to ''https://oauth2.googleapis.com/token'' (trace w) = []"
      and rd: "py_getitem rd ''verification_url'' = Inr vu" "py_getitem rd ''user_code'' = Inr uc"
              "py_getitem rd ''device_code'' = Inr dc"
      and iv: "py_getitem rd ''interval'' = Inr iv" "py_num iv = Some d" "0 \<le> d"
      and pend: "traverse_obj pend ''error'' = PStr ''authorization_pending''"
      and tok: "\<not> truthy (traverse_obj (PDict ds) ''error'')"
               "map_of ds ''access_token'' = Some a"
               "map_of ds ''expires_in'' = Some x" "py_num x = Some secs"
               "map_of ds ''refresh_token'' = Some r"
               "map_of ds ''token_type'' = Some tt"
      and fresh: "fresh_tokens E"
  shows "\<exists>w'. authorize (k + 2 + n) E w =
                Some (Inr (PDict [(''access_token'', a), (''expires'', PNum (now E (trace w') + secs)),
                                  (''refresh_token'', r), (''token_type'', tt)]), w') \<and>
              quiet w w' \<and> 60 \<le> secs \<and>
              adds w w' [device_code_request] (replicate (Suc k) (poll_request dc))
                (replicate (Suc k) d) []"
proof -
  have "\<exists>w1. authorize (Suc (k + Suc n)) E w = authorize_poll (Suc n) E rd w1 \<and>
      adds w w1 [device_code_request] (replicate k (poll_request dc)) (replicate (Suc k) d) []"
    using srv _ _ rd iv pend
    by (rule authorize_pending_then) (simp_all add: dev polls start nth_response_append nth_response_replicate_lt)
  then obtain w1 where s1: "authorize (Suc (k + Suc n)) E w = authorize_poll (Suc n) E rd w1"
    and a1: "adds w w1 [device_code_request] (replicate k (poll_request dc)) (replicate (Suc k) d) []"
    by blast
  have ans: "server E (trace w1) (poll_request dc) = Inr (PDict ds)"
    using a1 by (simp add: scripted_poll[OF srv] adds_def polls start nth_response_append)
  from success_step[OF rd(3) this tok, of n]
  obtain w2 where s2: "authorize_poll (Suc n) E rd w1 =
      Some (Inr (PDict [(''access_token'', a), (''expires'', PNum (now E (trace w2) + secs)),
                        (''refresh_token'', r), (''token_type'', tt)]), w2)"
    and a2: "adds w1 w2 [] [poll_request dc] [] []"
    by blast
  from adds_trans[OF a1 a2]
  have a: "adds w w2 [device_code_request] (replicate (Suc k) (poll_request dc))
      (replicate (Suc k) d) []"
    by (simp add: replicate_append_same)
  have fuel: "k + 2 + n = Suc (k + Suc n)" by simp
  have run: "authorize (k + 2 + n) E w =
      Some (Inr (PDict [(''access_token'', a), (''expires'', PNum (now E (trace w2) + secs)),
                        (''refresh_token'', r), (''token_type'', tt)]), w2)"
    by (simp only: fuel s1 s2)
  from authorize_quiet[OF run] have "quiet w w2" .
  moreover from fresh ans tok(2-4) have "60 \<le> secs"
    unfolding fresh_tokens_def by fastforce
  ultimately show ?thesis using run a by blast
qed

lemma quiet_prefix: "quiet w w' \<Longrightarrow> prefix (trace w) (trace w')"
  by (simp add: quiet_def)

lemma quiet_refreshes:
  "quiet w w' \<Longrightarrow>
   requests_to ''https://www.youtube.com/o/oauth2/token'' (trace w') =
   requests_to ''https://www.youtube.com/o/oauth2/token'' (trace w)"
  by (simp add: quiet_def)

lemma refresh_if_current:
  assumes "py_getitem td ''expires'' = Inr x" and "py_num x = Some e"
      and "now E (trace w) + 60 \<le> e"
  shows "refresh_if_expiring n E w td = Some (Inr td, w)"
  using assms by (simp add: refresh_if_expiring_def py_less_def)

lemma initialize_no_record:
  assumes none: "\<not> truthy (fst (get_token w)) \<or>
                 (fst (get_token w) = PDict c \<and>
                  (map_of c ''access_token'' = None \<or> map_of c ''expires'' = None \<or>
                   map_of c ''refresh_token'' = None \<or> map_of c ''token_type'' = None))"
  shows "initialize_oauth n E w =
     (case authorize n E
             (if truthy (fst (get_token w))
              then report_warning (snd (get_token w)) ''Invalid cached OAuth2 token data''
              else snd (get_token w)) of
        None \<Rightarrow> None
      | Some (Inl err, w1) \<Rightarrow> Some (Inl err, w1)
      | Some (Inr td, w1) \<Rightarrow> refresh_if_expiring n E (store_token w1 td) td)"
proof (cases "truthy (fst (get_token w))")
  case False
  then have "check_cached (snd (get_token w)) (fst (get_token w)) =
      (Inr (fst (get_token w)), snd (get_token w))"
    by (simp add: check_cached_def)
  then show ?thesis
    using False
    by (simp add: initialize_oauth_def authorize_if_missing_def split: option.split sum.split prod.split)
next
  case True
  from none True have "fst (get_token w) = PDict c"
    and "map_of c ''access_token'' = None \<or> map_of c ''expires'' = None \<or>
         map_of c ''refresh_token'' = None \<or> map_of c ''token_type'' = None"
    by auto
  then have "check_cached (snd (get_token w)) (fst (get_token w)) =
      (Inr PNone, report_warning (snd (get_token w)) ''Invalid cached OAuth2 token data'')"
    using True by (auto simp: check_cached_def validate_dict)
  then show ?thesis
    using True
    by (simp add: initialize_oauth_def authorize_if_missing_def split: option.split sum.split prod.split)
qed

lemma refresh_token_failed:
  assumes "server E (trace w) (refresh_request rt) = Inr resp"
      and "truthy (traverse_obj resp ''error'')"
  shows "refresh_token n E w rt =
     authorize n E
       (report_warning (log_event w (refresh_request rt))
         (''Failed to refresh access token: '' @ py_str E (traverse_obj resp ''error'')
            @ ''. Restarting authorization flow''))"
  using assms
  by (simp add: refresh_token_def download_json_eq refresh_request_def[symmetric])

lemma initialize_device_flow:
  assumes mono: "mono_clock E" and fresh: "fresh_tokens E"
      and srv: "server E = scripted script"
      and dev: "script ''https://oauth2.googleapis.com/device/code'' = Inr rd # others"
      and polls: "script ''https://oauth2.googleapis.com/token'' =
                    replicate k (Inr pend) @ [Inr (PDict ts)]"
      and start: "requests_to ''https://oauth2.googleapis.com/device/code'' (trace w) = []"
                 "requests_to ''https://oauth2.googleapis.com/token'' (trace w) = []"
      and rd: "py_getitem rd ''verification_url'' = Inr vu" "py_getitem rd ''user_code'' = Inr uc"
              "py_getitem rd ''device_code'' = Inr dc"
      and iv: "py_getitem rd ''interval'' = Inr iv" "py_num iv = Some dl" "0 \<le> dl"
      and pend: "traverse_obj pend ''error'' = PStr ''authorization_pending''"
      and tok: "\<not> truthy (traverse_obj (PDict ts) ''error'')"
               "map_of ts ''access_token'' = Some ta"
               "map_of ts ''expires_in'' = Some tx" "py_num tx = Some tsecs"
               "map_of ts ''refresh_token'' = Some tr"
               "map_of ts ''token_type'' = Some ttt"
      and none: "\<not> truthy (fst (get_token w)) \<or>
                 (fst (get_token w) = PDict c \<and>
                  (map_of c ''access_token'' = None \<or> map_of c ''expires'' = None \<or>
                   map_of c ''refresh_token'' = None \<or> map_of c ''token_type'' = None))"
  shows "\<exists>w2. initialize_oauth (k + 2 + m) E w = Some (Inr (TOKEN_DATA w2), w2) \<and>
              TOKEN_DATA w2 =
                PDict [(''access_token'', ta), (''expires'', PNum (now E (trace w2) + tsecs)),
                       (''refresh_token'', tr), (''token_type'', ttt)] \<and>
              now E (trace w) + 60 \<le> now E (trace w2) + tsecs \<and>
              cache w2 (''youtube-oauth2'', ''token_data'') = Some (TOKEN_DATA w2) \<and>
              requests_to ''https://www.youtube.com/o/oauth2/token'' (trace w2) =
                requests_to ''https://www.youtube.com/o/oauth2/token'' (trace w)"
proof -
  let ?w0 = "if truthy (fst (get_token w))
             then report_warning (snd (get_token w)) ''Invalid cached OAuth2 token data''
             else snd (get_token w)"
  have t0: "trace ?w0 = trace w \<or> trace ?w0 = trace w @ [Warning ''Invalid cached OAuth2 token data'']"
    by simp
  then have start0: "requests_to ''https://oauth2.googleapis.com/device/code'' (trace ?w0) = []"
      "requests_to ''https://oauth2.googleapis.com/token'' (trace ?w0) = []"
    and ref0: "requests_to ''https://www.youtube.com/o/oauth2/token'' (trace ?w0) =
      requests_to ''https://www.youtube.com/o/oauth2/token'' (trace w)"
    and pre0: "prefix (trace w) (trace ?w0)"
    using start by (auto simp: requests_to_Cons)
  from authorize_grants[OF srv dev polls start0 rd iv pend tok fresh, of m]
  obtain w1 where run: "authorize (k + 2 + m) E ?w0 =
      Some (Inr (PDict [(''access_token'', ta), (''expires'', PNum (now E (trace w1) + tsecs)),
                        (''refresh_token'', tr), (''token_type'', ttt)]), w1)"
    and q: "quiet ?w0 w1" and secs: "60 \<le> tsecs"
    by blast
  note p = prefix_order.trans[OF pre0 quiet_prefix[OF q]]
  let ?td = "PDict [(''access_token'', ta), (''expires'', PNum (now E (trace w1) + tsecs)),
                    (''refresh_token'', tr), (''token_type'', ttt)]"
  have cur: "refresh_if_expiring (k + 2 + m) E (store_token w1 ?td) ?td =
      Some (Inr ?td, store_token w1 ?td)"
    using secs by (intro refresh_if_current[where x = "PNum (now E (trace w1) + tsecs)"
          and e = "now E (trace w1) + tsecs"]) simp_all
  have init: "initialize_oauth (k + 2 + m) E w = Some (Inr ?td, store_token w1 ?td)"
    by (simp only: initialize_no_record[OF none] run cur option.case sum.case prod.case)
  from mono p have "now E (trace w) \<le> now E (trace w1)" by (rule mono_clock_prefix)
  with secs have "now E (trace w) + 60 \<le> now E (trace w1) + tsecs" by simp
  moreover from quiet_refreshes[OF q] ref0
  have "requests_to ''https://www.youtube.com/o/oauth2/token'' (trace w1) =
      requests_to ''https://www.youtube.com/o/oauth2/token'' (trace w)"
    by (rule trans)
  ultimately show ?thesis
    using init by (intro exI[of _ "store_token w1 ?td"]) (simp add: store_token_def)
qed

lemma initialize_refresh_failed:
  assumes mono: "mono_clock E" and fresh: "fresh_tokens E"
      and srv: "server E = scripted script"
      and dev: "script ''https://oauth2.googleapis.com/device/code'' = Inr rd # others"
      and polls: "script ''https://oauth2.googleapis.com/token'' =
                    replicate k (Inr pend) @ [Inr (PDict ts)]"
      and start: "requests_to ''https://oauth2.googleapis.com/device/code'' (trace w) = []"
                 "requests_to ''https://oauth2.googleapis.com/token'' (trace w) = []"
      and rd: "py_getitem rd ''verification_url'' = Inr vu" "py_getitem rd ''user_code'' = Inr uc"
              "py_getitem rd ''device_code'' = Inr dc"
      and iv: "py_getitem rd ''interval'' = Inr iv" "py_num iv = Some dl" "0 \<le> dl"
      and pend: "traverse_obj pend ''error'' = PStr ''authorization_pending''"
      and tok: "\<not> truthy (traverse_obj (PDict ts) ''error'')"
               "map_of ts ''access_token'' = Some ta"
               "map_of ts ''expires_in'' = Some tx" "py_num tx = Some tsecs"
               "map_of ts ''refresh_token'' = Some tr"
               "map_of ts ''token_type'' = Some ttt"
      and cached: "fst (get_token w) = PDict d"
      and d: "map_of d ''access_token'' = Some a" "map_of d ''refresh_token'' = Some rt"
        "map_of d ''token_type'' = Some tt" "map_of d ''expires'' = Some x" "py_num x = Some e"
      and exp: "e < now E (trace w) + 60"
      and ans: "server E (trace w @ [ToScreen ''Access token expired, refreshing''])
                  (refresh_request rt) = Inr resp"
      and err: "truthy (traverse_obj resp ''error'')"
  shows "\<exists>w2. initialize_oauth (k + 2 + m) E w = Some (Inr (TOKEN_DATA w2), w2) \<and>
              TOKEN_DATA w2 =
                PDict [(''access_token'', ta), (''expires'', PNum (now E (trace w2) + tsecs)),
                       (''refresh_token'', tr), (''token_type'', ttt)] \<and>
              now E (trace w) + 60 \<le> now E (trace w2) + tsecs \<and>
              cache w2 (''youtube-oauth2'', ''token_data'') = Some (TOKEN_DATA w2) \<and>
              requests_to ''https://www.youtube.com/o/oauth2/token'' (trace w2) =
                requests_to ''https://www.youtube.com/o/oauth2/token'' (trace w) @ [refresh_request rt] \<and>
              warnings (trace w2) =
                warnings (trace w) @
                  [''Failed to refresh access token: '' @ py_str E (traverse_obj resp ''error'')
                     @ ''. Restarting authorization flow'']"
proof -
  let ?w0 = "to_screen (snd (get_token w)) ''Access token expired, refreshing''"
  let ?msg = "''Failed to refresh access token: '' @ py_str E (traverse_obj resp ''error'')
                @ ''. Restarting authorization flow''"
  let ?w3 = "report_warning (log_event ?w0 (refresh_request rt)) ?msg"
  have init: "initialize_oauth (k + 2 + m) E w =
     (case refresh_token (k + 2 + m) E ?w0 rt of
        None \<Rightarrow> None
      | Some (Inl err, w1) \<Rightarrow> Some (Inl err, w1)
      | Some (Inr new_token_data, w1) \<Rightarrow> Some (Inr new_token_data, store_token w1 new_token_data))"
    using cached d exp by (rule initialize_cached_expiring)
  have "server E (trace ?w0) (refresh_request rt) = Inr resp"
    using ans by simp
  from refresh_token_failed[OF this err]
  have ref: "refresh_token (k + 2 + m) E ?w0 rt = authorize (k + 2 + m) E ?w3" .
  have t3: "trace ?w3 = trace w @ [ToScreen ''Access token expired, refreshing'',
      refresh_request rt, Warning ?msg]"
    by simp
  have start3: "requests_to ''https://oauth2.googleapis.com/device/code'' (trace ?w3) = []"
      "requests_to ''https://oauth2.googleapis.com/token'' (trace ?w3) = []"
    and ref3: "requests_to ''https://www.youtube.com/o/oauth2/token'' (trace ?w3) =
      requests_to ''https://www.youtube.com/o/oauth2/token'' (trace w) @ [refresh_request rt]"
    and warn3: "warnings (trace ?w3) = warnings (trace w) @ [?msg]"
    and pre3: "prefix (trace w) (trace ?w3)"
    unfolding t3 using start by (simp_all add: requests_to_Cons)
  from authorize_grants[OF srv dev polls start3 rd iv pend tok fresh, of m]
  obtain w1 where run: "authorize (k + 2 + m) E ?w3 =
      Some (Inr (PDict [(''access_token'', ta), (''expires'', PNum (now E (trace w1) + tsecs)),
                        (''refresh_token'', tr), (''token_type'', ttt)]), w1)"
    and q: "quiet ?w3 w1" and secs: "60 \<le> tsecs"
    and a: "adds ?w3 w1 [device_code_request] (replicate (Suc k) (poll_request dc))
        (replicate (Suc k) dl) []"
    by blast
  note p = prefix_order.trans[OF pre3 quiet_prefix[OF q]]
  let ?td = "PDict [(''access_token'', ta), (''expires'', PNum (now E (trace w1) + tsecs)),
                    (''refresh_token'', tr), (''token_type'', ttt)]"
  have res: "initialize_oauth (k + 2 + m) E w = Some (Inr ?td, store_token w1 ?td)"
    by (simp only: init ref run option.case sum.case prod.case)
  from mono p have "now E (trace w) \<le> now E (trace w1)" by (rule mono_clock_prefix)
  with secs have "now E (trace w) + 60 \<le> now E (trace w1) + tsecs" by simp
  moreover from quiet_refreshes[OF q] ref3
  have "requests_to ''https://www.youtube.com/o/oauth2/token'' (trace w1) =
      requests_to ''https://www.youtube.com/o/oauth2/token'' (trace w) @ [refresh_request rt]"
    by (rule trans)
  moreover have "warnings (trace w1) = warnings (trace ?w3)"
    using a by (simp only: adds_def append_Nil2)
  then have "warnings (trace w1) = warnings (trace w) @ [?msg]"
    using warn3 by (rule trans)
  ultimately show ?thesis
    using res by (intro exI[of _ "store_token w1 ?td"]) (simp add: store_token_def)
qed

lemma scripted_refresh:
  "server E = scripted script \<Longrightarrow>
   server E t (refresh_request rt) =
     nth_response (script ''https://www.youtube.com/o/oauth2/token'')
       (length (requests_to ''https://www.youtube.com/o/oauth2/token'' t))"
  by (simp add: scripted_def)

lemma get_token_memory: "TOKEN_DATA (snd (get_token w)) = fst (get_token w)"
  by (simp add: get_token_def)

lemma initialize_refreshed:
  assumes cached: "fst (get_token w) = PDict d"
      and d: "map_of d ''access_token'' = Some a" "map_of d ''refresh_token'' = Some rt"
        "map_of d ''token_type'' = Some tt" "map_of d ''expires'' = Some x" "py_num x = Some e"
      and exp: "e < now E (trace w) + 60"
      and ans: "server E (trace w @ [ToScreen ''Access token expired, refreshing''])
                  (refresh_request rt) = Inr (PDict ds)"
      and ds: "map_of ds ''error'' = None" "map_of ds ''access_token'' = Some a'"
        "map_of ds ''expires_in'' = Some x'" "py_num x' = Some secs"
        "map_of ds ''token_type'' = Some tt'"
  shows "\<exists>td w2. initialize_oauth n E w = Some (Inr td, w2) \<and> TOKEN_DATA w2 = td"
proof -
  let ?w0 = "to_screen (snd (get_token w)) ''Access token expired, refreshing''"
  have init: "initialize_oauth n E w =
     (case refresh_token n E ?w0 rt of
        None \<Rightarrow> None
      | Some (Inl err, w1) \<Rightarrow> Some (Inl err, w1)
      | Some (Inr new_token_data, w1) \<Rightarrow> Some (Inr new_token_data, store_token w1 new_token_data))"
    using cached d exp by (rule initialize_cached_expiring)
  have "server E (trace ?w0) (refresh_request rt) = Inr (PDict ds)"
    using ans by simp
  from refresh_token_ok[OF this ds, of n]
  obtain td where "refresh_token n E ?w0 rt = Some (Inr td, log_event ?w0 (refresh_request rt))"
    by blast
  then have "initialize_oauth n E w =
      Some (Inr td, store_token (log_event ?w0 (refresh_request rt)) td)"
    unfolding init by simp
  moreover have "TOKEN_DATA (store_token (log_event ?w0 (refresh_request rt)) td) = td"
    by (simp add: store_token_def)
  ultimately show ?thesis by blast
qed

lemma initialize_oauth_returns:
  assumes mono: "mono_clock E" and fresh: "fresh_tokens E"
      and srv: "server E = scripted script"
      and dev: "script ''https://oauth2.googleapis.com/device/code'' = Inr rd # others"
      and polls: "script ''https://oauth2.googleapis.com/token'' =
                    replicate k (Inr pend) @ [Inr (PDict ts)]"
      and start: "requests_to ''https://oauth2.googleapis.com/device/code'' (trace w) = []"
                 "requests_to ''https://oauth2.googleapis.com/token'' (trace w) = []"
      and rd: "py_getitem rd ''verification_url'' = Inr vu" "py_getitem rd ''user_code'' = Inr uc"
              "py_getitem rd ''device_code'' = Inr dc"
      and iv: "py_getitem rd ''interval'' = Inr iv" "py_num iv = Some dl" "0 \<le> dl"
      and pend: "traverse_obj pend ''error'' = PStr ''authorization_pending''"
      and tok: "\<not> truthy (traverse_obj (PDict ts) ''error'')"
               "map_of ts ''access_token'' = Some ta"
               "map_of ts ''expires_in'' = Some tx" "py_num tx = Some tsecs"
               "map_of ts ''refresh_token'' = Some tr"
               "map_of ts ''token_type'' = Some ttt"
      and refr: "script ''https://www.youtube.com/o/oauth2/token'' = Inr rr # rest"
      and start_refr: "requests_to ''https://www.youtube.com/o/oauth2/token'' (trace w) = []"
      and rr: "truthy (traverse_obj rr ''error'') \<or>
               (rr = PDict rs \<and> map_of rs ''error'' = None \<and> map_of rs ''access_token'' = Some ra \<and>
                map_of rs ''expires_in'' = Some rx \<and> py_num rx = Some rsecs \<and>
                map_of rs ''token_type'' = Some rtt)"
      and typed: "\<not> truthy (fst (get_token w)) \<or>
                  (fst (get_token w) = PDict c \<and>
                   (case map_of c ''expires'' of None \<Rightarrow> True | Some v \<Rightarrow> py_num v \<noteq> None))"
  shows "\<exists>td w2. initialize_oauth (k + 2 + m) E w = Some (Inr td, w2) \<and>
                 good_record (now E (trace w) + 60) td \<and> TOKEN_DATA w2 = td"
proof -
  have "\<exists>td w2. initialize_oauth (k + 2 + m) E w = Some (Inr td, w2) \<and> TOKEN_DATA w2 = td"
  proof (cases "\<not> truthy (fst (get_token w)) \<or>
                 (fst (get_token w) = PDict c \<and>
                  (map_of c ''access_token'' = None \<or> map_of c ''expires'' = None \<or>
                   map_of c ''refresh_token'' = None \<or> map_of c ''token_type'' = None))")
    case True
    from initialize_device_flow[OF mono fresh srv dev polls start rd iv pend tok True, of m]
    show ?thesis by blast
  next
    case False
    with typed have cached: "fst (get_token w) = PDict c" by blast
    from False cached typed obtain a rt tt x e where
      c: "map_of c ''access_token'' = Some a" "map_of c ''refresh_token'' = Some rt"
         "map_of c ''token_type'' = Some tt" "map_of c ''expires'' = Some x" "py_num x = Some e"
      by auto
    show ?thesis
    proof (cases "e < now E (trace w) + 60")
      case current: False
      then have "now E (trace w) + 60 \<le> e" by simp
      from initialize_cached_current[OF cached c(1-5) this, of "k + 2 + m"]
      show ?thesis by (auto simp: get_token_memory cached)
    next
      case expiring: True
      have ans: "server E (trace w @ [ToScreen ''Access token expired, refreshing''])
          (refresh_request rt) = Inr rr"
        by (simp add: scripted_refresh[OF srv] refr start_refr requests_to_Cons)
      from rr show ?thesis
      proof
        assume err: "truthy (traverse_obj rr ''error'')"
        from initialize_refresh_failed[OF mono fresh srv dev polls start rd iv pend tok
            cached c expiring ans err, of m]
        show ?thesis by blast
      next
        assume ok: "rr = PDict rs \<and> map_of rs ''error'' = None \<and> map_of rs ''access_token'' = Some ra \<and>
                map_of rs ''expires_in'' = Some rx \<and> py_num rx = Some rsecs \<and>
                map_of rs ''token_type'' = Some rtt"
        then have ans': "server E (trace w @ [ToScreen ''Access token expired, refreshing''])
            (refresh_request rt) = Inr (PDict rs)"
          using ans by simp
        from ok have rs: "map_of rs ''error'' = None" "map_of rs ''access_token'' = Some ra"
            "map_of rs ''expires_in'' = Some rx" "py_num rx = Some rsecs"
            "map_of rs ''token_type'' = Some rtt"
          by simp_all
        from initialize_refreshed[OF cached c expiring ans' rs]
        show ?thesis .
      qed
    qed
  qed
  then obtain td w2 where run: "initialize_oauth (k + 2 + m) E w = Some (Inr td, w2)"
    and mem: "TOKEN_DATA w2 = td" by blast
  from initialize_oauth_good[OF mono fresh run] run mem show ?thesis by blast
qed

text \<open>C1, as amended. With a clock that never runs backwards and a server whose
  token responses are well formed and live for at least 60 seconds: whatever the
  cached state, every record that \<^verbatim>\<open>initialize_oauth\<close> returns has the four fields
  and an \<^verbatim>\<open>expires\<close> at least 60 seconds after the time of the call. A valid cached
  record (one with the four fields and a numeric \<^verbatim>\<open>expires\<close>) that is not within
  60 seconds of its expiry is returned as it is. For a valid cached record with
  \<^verbatim>\<open>expires < now + 60\<close>, every run that ends has sent exactly one refresh
  request, and when the server answers it with a token, \<^verbatim>\<open>initialize_oauth\<close>
  returns the refreshed record and stores it in the cache and in memory.

  That a record is returned at all is proved against a server that answers the
  device-code request with a well-formed session and the polls with
  \<^verbatim>\<open>authorization_pending\<close> \<open>k\<close> times and then with a token, for any \<open>k\<close>, given
  \<open>k + 2\<close> or more units of fuel. When there is no cached record, or the cached
  record lacks a field, \<^verbatim>\<open>initialize_oauth\<close> returns the record built from the
  token response, without any refresh request. When the refresh request for an
  expiring record is answered with an error, it logs the warning, runs the device
  flow and returns that record. Either way the record is stored in the cache and
  in memory and its \<^verbatim>\<open>expires\<close> is at least 60 seconds after the time of the
  call. Taken together: when the server also answers the refresh request with a
  token or with an error, and the cache holds nothing or a dict whose
  \<^verbatim>\<open>expires\<close>, if it has one, is a number, \<^verbatim>\<open>initialize_oauth\<close> returns a record
  that has the four fields and an \<^verbatim>\<open>expires\<close> at least 60 seconds after the time
  of the call, and that record is the one held in memory.\<close>

theorem initialize_oauth_record:
  assumes mono: "mono_clock E" and fresh: "fresh_tokens E"
  shows
    "(initialize_oauth n E w = Some (Inr td, w') \<longrightarrow> good_record (now E (trace w) + 60) td)
     \<and>
     (fst (get_token w) = PDict d \<and>
      map_of d ''access_token'' = Some a \<and> map_of d ''refresh_token'' = Some rt \<and>
      map_of d ''token_type'' = Some tt \<and> map_of d ''expires'' = Some x \<and> py_num x = Some e \<longrightarrow>
        (now E (trace w) + 60 \<le> e \<longrightarrow>
           initialize_oauth n E w = Some (Inr (PDict d), snd (get_token w)))
        \<and>
        (e < now E (trace w) + 60 \<longrightarrow>
           (initialize_oauth n E w = Some (r, w1) \<longrightarrow>
              requests_to ''https://www.youtube.com/o/oauth2/token'' (trace w1) =
              requests_to ''https://www.youtube.com/o/oauth2/token'' (trace w) @ [refresh_request rt])
           \<and>
           (server E (trace w @ [ToScreen ''Access token expired, refreshing''])
                (refresh_request rt) = Inr (PDict ds) \<and>
            map_of ds ''error'' = None \<and> map_of ds ''access_token'' = Some a' \<and>
            map_of ds ''expires_in'' = Some x' \<and> py_num x' = Some secs \<and>
            map_of ds ''token_type'' = Some tt' \<longrightarrow>
              (\<exists>w2. initialize_oauth n E w =
                      Some (Inr (PDict [(''access_token'', a'),
                                        (''expires'',
                                           PNum (now E (trace w @
                                                   [ToScreen ''Access token expired, refreshing'',
                                                    refresh_request rt]) + secs)),
                                        (''token_type'', tt'),
                                        (''refresh_token'',
                                           case map_of ds ''refresh_token'' of
                                             None \<Rightarrow> rt | Some v \<Rightarrow> v)]), w2) \<and>
                    60 \<le> secs \<and>
                    trace w2 = trace w @ [ToScreen ''Access token expired, refreshing'',
                                          refresh_request rt] \<and>
                    TOKEN_DATA w2 =
                      PDict [(''access_token'', a'),
                             (''expires'',
                                PNum (now E (trace w @
                                        [ToScreen ''Access token expired, refreshing'',
                                         refresh_request rt]) + secs)),
                             (''token_type'', tt'),
                             (''refresh_token'',
                                case map_of ds ''refresh_token'' of None \<Rightarrow> rt | Some v \<Rightarrow> v)] \<and>
                    cache w2 (''youtube-oauth2'', ''token_data'') = Some (TOKEN_DATA w2)))))
     \<and>
     (server E = scripted script \<and>
      script ''https://oauth2.googleapis.com/device/code'' = Inr rd # others \<and>
      script ''https://oauth2.googleapis.com/token'' = replicate k (Inr pend) @ [Inr (PDict ts)] \<and>
      requests_to ''https://oauth2.googleapis.com/device/code'' (trace w) = [] \<and>
      requests_to ''https://oauth2.googleapis.com/token'' (trace w) = [] \<and>
      py_getitem rd ''verification_url'' = Inr vu \<and> py_getitem rd ''user_code'' = Inr uc \<and>
      py_getitem rd ''device_code'' = Inr dc \<and>
      py_getitem rd ''interval'' = Inr iv \<and> py_num iv = Some dl \<and> 0 \<le> dl \<and>
      traverse_obj pend ''error'' = PStr ''authorization_pending'' \<and>
      \<not> truthy (traverse_obj (PDict ts) ''error'') \<and>
      map_of ts ''access_token'' = Some ta \<and>
      map_of ts ''expires_in'' = Some tx \<and> py_num tx = Some tsecs \<and>
      map_of ts ''refresh_token'' = Some tr \<and>
      map_of ts ''token_type'' = Some ttt \<longrightarrow>
        (\<not> truthy (fst (get_token w)) \<or>
         (fst (get_token w) = PDict c \<and>
          (map_of c ''access_token'' = None \<or> map_of c ''expires'' = None \<or>
           map_of c ''refresh_token'' = None \<or> map_of c ''token_type'' = None)) \<longrightarrow>
           (\<exists>w2. initialize_oauth (k + 2 + m) E w = Some (Inr (TOKEN_DATA w2), w2) \<and>
                 TOKEN_DATA w2 =
                   PDict [(''access_token'', ta), (''expires'', PNum (now E (trace w2) + tsecs)),
                          (''refresh_token'', tr), (''token_type'', ttt)] \<and>
                 now E (trace w) + 60 \<le> now E (trace w2) + tsecs \<and>
                 cache w2 (''youtube-oauth2'', ''token_data'') = Some (TOKEN_DATA w2) \<and>
                 requests_to ''https://www.youtube.com/o/oauth2/token'' (trace w2) =
                   requests_to ''https://www.youtube.com/o/oauth2/token'' (trace w)))
        \<and>
        (fst (get_token w) = PDict d \<and>
         map_of d ''access_token'' = Some a \<and> map_of d ''refresh_token'' = Some rt \<and>
         map_of d ''token_type'' = Some tt \<and> map_of d ''expires'' = Some x \<and> py_num x = Some e \<and>
         e < now E (trace w) + 60 \<and>
         server E (trace w @ [ToScreen ''Access token expired, refreshing''])
           (refresh_request rt) = Inr resp \<and>
         truthy (traverse_obj resp ''error'') \<longrightarrow>
           (\<exists>w2. initialize_oauth (k + 2 + m) E w = Some (Inr (TOKEN_DATA w2), w2) \<and>
                 TOKEN_DATA w2 =
                   PDict [(''access_token'', ta), (''expires'', PNum (now E (trace w2) + tsecs)),
                          (''refresh_token'', tr), (''token_type'', ttt)] \<and>
                 now E (trace w) + 60 \<le> now E (trace w2) + tsecs \<and>
                 cache w2 (''youtube-oauth2'', ''token_data'') = Some (TOKEN_DATA w2) \<and>
                 requests_to ''https://www.youtube.com/o/oauth2/token'' (trace w2) =
                   requests_to ''https://www.youtube.com/o/oauth2/token'' (trace w) @
                     [refresh_request rt] \<and>
                 warnings (trace w2) =
                   warnings (trace w) @
                     [''Failed to refresh access token: '' @ py_str E (traverse_obj resp ''error'')
                        @ ''. Restarting authorization flow'']))
        \<and>
        (script ''https://www.youtube.com/o/oauth2/token'' = Inr rr # rest \<and>
         requests_to ''https://www.youtube.com/o/oauth2/token'' (trace w) = [] \<and>
         (truthy (traverse_obj rr ''error'') \<or>
          (rr = PDict rs \<and> map_of rs ''error'' = None \<and> map_of rs ''access_token'' = Some ra \<and>
           map_of rs ''expires_in'' = Some rx \<and> py_num rx = Some rsecs \<and>
           map_of rs ''token_type'' = Some rtt)) \<and>
         (\<not> truthy (fst (get_token w)) \<or>
          (fst (get_token w) = PDict c \<and>
           (case map_of c ''expires'' of None \<Rightarrow> True | Some v \<Rightarrow> py_num v \<noteq> None))) \<longrightarrow>
           (\<exists>td w2. initialize_oauth (k + 2 + m) E w = Some (Inr td, w2) \<and>
                    good_record (now E (trace w) + 60) td \<and> TOKEN_DATA w2 = td)))"
    (is "?A \<and> ?B \<and>
         (?S \<longrightarrow> (?H1 \<longrightarrow> ?C1) \<and> (?H2 \<longrightarrow> ?C2) \<and> (?H3 \<longrightarrow> ?C3))")
proof (intro conjI)
  show ?A
  proof
    assume "initialize_oauth n E w = Some (Inr td, w')"
    then show "good_record (now E (trace w) + 60) td"
      by (rule initialize_oauth_good[OF mono fresh])
  qed
  show ?B
  proof (intro conjI impI)
    assume c: "fst (get_token w) = PDict d \<and>
        map_of d ''access_token'' = Some a \<and> map_of d ''refresh_token'' = Some rt \<and>
        map_of d ''token_type'' = Some tt \<and> map_of d ''expires'' = Some x \<and> py_num x = Some e"
      and "now E (trace w) + 60 \<le> e"
    then show "initialize_oauth n E w = Some (Inr (PDict d), snd (get_token w))"
      by (intro initialize_cached_current) auto
  next
    assume c: "fst (get_token w) = PDict d \<and>
        map_of d ''access_token'' = Some a \<and> map_of d ''refresh_token'' = Some rt \<and>
        map_of d ''token_type'' = Some tt \<and> map_of d ''expires'' = Some x \<and> py_num x = Some e"
      and exp: "e < now E (trace w) + 60"
    let ?w0 = "to_screen (snd (get_token w)) ''Access token expired, refreshing''"
    from c exp have init: "initialize_oauth n E w =
       (case refresh_token n E ?w0 rt of
          None \<Rightarrow> None
        | Some (Inl err, w1) \<Rightarrow> Some (Inl err, w1)
        | Some (Inr new_token_data, w1) \<Rightarrow> Some (Inr new_token_data, store_token w1 new_token_data))"
      by (intro initialize_cached_expiring) auto
    {
      assume run: "initialize_oauth n E w = Some (r, w1)"
      then obtain r' w1' where rt: "refresh_token n E ?w0 rt = Some (r', w1')"
        and tr: "trace w1 = trace w1'"
        unfolding init by (auto split: option.splits sum.splits prod.splits)
      from refresh_token_one_request[OF rt] tr
      show "requests_to ''https://www.youtube.com/o/oauth2/token'' (trace w1) =
            requests_to ''https://www.youtube.com/o/oauth2/token'' (trace w) @ [refresh_request rt]"
        by (simp add: requests_to_Cons)
    }
    {
      assume s: "server E (trace w @ [ToScreen ''Access token expired, refreshing''])
                  (refresh_request rt) = Inr (PDict ds) \<and>
              map_of ds ''error'' = None \<and> map_of ds ''access_token'' = Some a' \<and>
              map_of ds ''expires_in'' = Some x' \<and> py_num x' = Some secs \<and>
              map_of ds ''token_type'' = Some tt'"
      let ?td = "PDict [(''access_token'', a'),
                        (''expires'',
                           PNum (now E (trace w @ [ToScreen ''Access token expired, refreshing'',
                                                   refresh_request rt]) + secs)),
                        (''token_type'', tt'),
                        (''refresh_token'', case map_of ds ''refresh_token'' of None \<Rightarrow> rt | Some v \<Rightarrow> v)]"
      have "refresh_token n E ?w0 rt = Some (Inr ?td, log_event ?w0 (refresh_request rt))"
        using refresh_token_ok[of E ?w0 rt ds a' x' secs tt' n] s by simp
      then have run: "initialize_oauth n E w =
          Some (Inr ?td, store_token (log_event ?w0 (refresh_request rt)) ?td)"
        unfolding init by simp
      moreover from fresh s have "60 \<le> secs"
        unfolding fresh_tokens_def by fastforce
      moreover have "trace (store_token (log_event ?w0 (refresh_request rt)) ?td) =
          trace w @ [ToScreen ''Access token expired, refreshing'', refresh_request rt]"
        by simp
      moreover have "TOKEN_DATA (store_token (log_event ?w0 (refresh_request rt)) ?td) = ?td"
        by (simp add: store_token_def)
      moreover have "cache (store_token (log_event ?w0 (refresh_request rt)) ?td)
          (''youtube-oauth2'', ''token_data'') = Some ?td"
        by (simp add: store_token_def)
      ultimately show "\<exists>w2. initialize_oauth n E w = Some (Inr ?td, w2) \<and> 60 \<le> secs \<and>
          trace w2 = trace w @ [ToScreen ''Access token expired, refreshing'', refresh_request rt] \<and>
          TOKEN_DATA w2 = ?td \<and>
          cache w2 (''youtube-oauth2'', ''token_data'') = Some (TOKEN_DATA w2)"
        by (intro exI[of _ "store_token (log_event ?w0 (refresh_request rt)) ?td"]) simp
    }
  qed
  show "?S \<longrightarrow> (?H1 \<longrightarrow> ?C1) \<and> (?H2 \<longrightarrow> ?C2) \<and> (?H3 \<longrightarrow> ?C3)"
  proof (intro impI conjI)
    assume s: ?S and h: ?H1
    show ?C1
      using s h by (elim conjE) (rule initialize_device_flow[OF mono fresh], assumption+)
  next
    assume s: ?S and h: ?H2
    show ?C2
      using s h by (elim conjE) (rule initialize_refresh_failed[OF mono fresh], assumption+)
  next
    assume s: ?S and h: ?H3
    show ?C3
      using s h by (elim conjE) (rule initialize_oauth_returns[OF mono fresh], assumption+)
  qed
qed

lemmas initialize_defs = initialize_oauth_def check_cached_def authorize_if_missing_def
  refresh_if_expiring_def validate_token_data_def get_token_def cache_load_def store_token_def
  py_less_def cached_world_def stored_record_def

lemma result_ofD: "result_of x = Some r \<Longrightarrow> \<exists>w. x = Some (r, w)"
  by (cases x) (auto simp: result_of_def)

theorem initialize_oauth_record_witness:
  "mono_clock (mock_env (script_of [Inr device_response] [Inr token_response_ok]
       [Inr refresh_response_ok]))
   \<and> fresh_tokens (mock_env (script_of [Inr device_response] [Inr token_response_ok]
       [Inr refresh_response_ok]))
   \<and> result_of (initialize_oauth 0
        (mock_env (script_of [Inr device_response] [Inr token_response_ok] [Inr refresh_response_ok]))
        (cached_world (stored_record 1030)))
     = Some (Inr (PDict [(''access_token'', PStr ''AT-2''), (''expires'', PNum 4601),
                         (''token_type'', PStr ''Bearer''), (''refresh_token'', PStr ''RT-0'')]))
   \<and> good_record 1060
        (PDict [(''access_token'', PStr ''AT-2''), (''expires'', PNum 4601),
                (''token_type'', PStr ''Bearer''), (''refresh_token'', PStr ''RT-0'')])
   \<and> requests_to ''https://www.youtube.com/o/oauth2/token''
        (trace_of (initialize_oauth 0
          (mock_env (script_of [Inr device_response] [Inr token_response_ok] [Inr refresh_response_ok]))
          (cached_world (stored_record 1030))))
     = [refresh_request (PStr ''RT-0'')]
   \<and> result_of (initialize_oauth (Suc (Suc 0))
        (mock_env (script_of [Inr device_response] [Inr token_response_ok] [Inr refresh_response_ok]))
        empty_world)
     = Some (Inr (PDict [(''access_token'', PStr ''AT-1''), (''expires'', PNum 4607),
                         (''refresh_token'', PStr ''RT-1''), (''token_type'', PStr ''Bearer'')]))
   \<and> good_record 1060
        (PDict [(''access_token'', PStr ''AT-1''), (''expires'', PNum 4607),
                (''refresh_token'', PStr ''RT-1''), (''token_type'', PStr ''Bearer'')])
   \<and> (\<exists>w2. initialize_oauth 3
          (mock_env (script_of [Inr device_response]
            [Inr (error_response ''authorization_pending''), Inr token_response_ok]
            [Inr refresh_response_ok]))
          empty_world = Some (Inr (TOKEN_DATA w2), w2) \<and>
        TOKEN_DATA w2 =
          PDict [(''access_token'', PStr ''AT-1''),
                 (''expires'', PNum (1000 + real (length (trace w2)) + 3599)),
                 (''refresh_token'', PStr ''RT-1''), (''token_type'', PStr ''Bearer'')] \<and>
        cache w2 (''youtube-oauth2'', ''token_data'') = Some (TOKEN_DATA w2) \<and>
        requests_to ''https://www.youtube.com/o/oauth2/token'' (trace w2) = [])
   \<and> (\<exists>w2. initialize_oauth 3
          (mock_env (script_of [Inr device_response]
            [Inr (error_response ''authorization_pending''), Inr token_response_ok]
            [Inr refresh_response_ok]))
          (cached_world (PDict [(''access_token'', PStr ''AT-0''), (''expires'', PNum 5000)]))
          = Some (Inr (TOKEN_DATA w2), w2) \<and>
        TOKEN_DATA w2 =
          PDict [(''access_token'', PStr ''AT-1''),
                 (''expires'', PNum (1000 + real (length (trace w2)) + 3599)),
                 (''refresh_token'', PStr ''RT-1''), (''token_type'', PStr ''Bearer'')] \<and>
        cache w2 (''youtube-oauth2'', ''token_data'') = Some (TOKEN_DATA w2) \<and>
        requests_to ''https://www.youtube.com/o/oauth2/token'' (trace w2) = [])
   \<and> (\<exists>w2. initialize_oauth 2
          (mock_env (script_of [Inr device_response] [Inr token_response_ok]
            [Inr (error_response ''invalid_grant'')]))
          (cached_world (stored_record 1030)) = Some (Inr (TOKEN_DATA w2), w2) \<and>
        TOKEN_DATA w2 =
          PDict [(''access_token'', PStr ''AT-1''),
                 (''expires'', PNum (1000 + real (length (trace w2)) + 3599)),
                 (''refresh_token'', PStr ''RT-1''), (''token_type'', PStr ''Bearer'')] \<and>
        cache w2 (''youtube-oauth2'', ''token_data'') = Some (TOKEN_DATA w2) \<and>
        requests_to ''https://www.youtube.com/o/oauth2/token'' (trace w2) =
          [refresh_request (PStr ''RT-0'')] \<and>
        warnings (trace w2) =
          [''Failed to refresh access token: invalid_grant. Restarting authorization flow''])
   \<and> (\<exists>td w2. initialize_oauth 3
          (mock_env (script_of [Inr device_response]
            [Inr (error_response ''authorization_pending''), Inr token_response_ok]
            [Inr refresh_response_ok]))
          (cached_world (stored_record 1030)) = Some (Inr td, w2) \<and>
        good_record 1060 td \<and> TOKEN_DATA w2 = td)"
proof -
  let ?E = "mock_env (script_of [Inr device_response] [Inr token_response_ok] [Inr refresh_response_ok])"
  have m: "mono_clock ?E" by (rule mono_clock_mock)
  have f: "fresh_tokens ?E"
  proof (rule fresh_tokens_scripted)
    show "server ?E = scripted (script_of [Inr device_response] [Inr token_response_ok]
        [Inr refresh_response_ok])"
      by (simp add: mock_env_def)
  next
    fix u d x
    assume "Inr (PDict d) \<in> set (script_of [Inr device_response] [Inr token_response_ok]
        [Inr refresh_response_ok] u)"
      and "map_of d ''access_token'' \<noteq> None" and "map_of d ''expires_in'' = Some x"
    then show "\<exists>secs. py_num x = Some secs \<and> 60 \<le> secs"
      by (auto simp: script_of_def device_response_def token_response_ok_def
          refresh_response_ok_def split: if_splits)
  qed
  have run1: "result_of (initialize_oauth 0 ?E (cached_world (stored_record 1030)))
     = Some (Inr (PDict [(''access_token'', PStr ''AT-2''), (''expires'', PNum 4601),
                         (''token_type'', PStr ''Bearer''), (''refresh_token'', PStr ''RT-0'')]))"
    by (simp add: run_defs initialize_defs)
  have req1: "requests_to ''https://www.youtube.com/o/oauth2/token''
        (trace_of (initialize_oauth 0 ?E (cached_world (stored_record 1030))))
     = [refresh_request (PStr ''RT-0'')]"
    by (simp add: run_defs initialize_defs)
  have run2: "result_of (initialize_oauth (Suc (Suc 0)) ?E empty_world)
     = Some (Inr (PDict [(''access_token'', PStr ''AT-1''), (''expires'', PNum 4607),
                         (''refresh_token'', PStr ''RT-1''), (''token_type'', PStr ''Bearer'')]))"
    by (simp add: run_defs initialize_defs)
  from result_ofD[OF run1] obtain w1 where
    "initialize_oauth 0 ?E (cached_world (stored_record 1030))
     = Some (Inr (PDict [(''access_token'', PStr ''AT-2''), (''expires'', PNum 4601),
                         (''token_type'', PStr ''Bearer''), (''refresh_token'', PStr ''RT-0'')]), w1)"
    by blast
  from initialize_oauth_record[OF m f, THEN conjunct1, THEN mp, OF this]
  have good1: "good_record 1060
        (PDict [(''access_token'', PStr ''AT-2''), (''expires'', PNum 4601),
                (''token_type'', PStr ''Bearer''), (''refresh_token'', PStr ''RT-0'')])"
    by (simp add: mock_env_def cached_world_def)
  from result_ofD[OF run2] obtain w2 where
    "initialize_oauth (Suc (Suc 0)) ?E empty_world
     = Some (Inr (PDict [(''access_token'', PStr ''AT-1''), (''expires'', PNum 4607),
                         (''refresh_token'', PStr ''RT-1''), (''token_type'', PStr ''Bearer'')]), w2)"
    by blast
  from initialize_oauth_record[OF m f, THEN conjunct1, THEN mp, OF this]
  have good2: "good_record 1060
        (PDict [(''access_token'', PStr ''AT-1''), (''expires'', PNum 4607),
                (''refresh_token'', PStr ''RT-1''), (''token_type'', PStr ''Bearer'')])"
    by (simp add: mock_env_def empty_world_def)
  let ?S1 = "script_of [Inr device_response]
      [Inr (error_response ''authorization_pending''), Inr token_response_ok]
      [Inr refresh_response_ok]"
  let ?S2 = "script_of [Inr device_response] [Inr token_response_ok]
      [Inr (error_response ''invalid_grant'')]"
  have f1: "fresh_tokens (mock_env ?S1)"
    by (rule fresh_tokens_mock)
       (auto simp: script_of_def device_response_def token_response_ok_def error_response_def
          refresh_response_ok_def split: if_splits)
  have f2: "fresh_tokens (mock_env ?S2)"
    by (rule fresh_tokens_mock)
       (auto simp: script_of_def device_response_def token_response_ok_def error_response_def
          split: if_splits)
  have fuel1: "(1::nat) + 2 + 0 = 3" and fuel2: "(0::nat) + 2 + 0 = 2" by simp_all
  have run3: "\<exists>w2. initialize_oauth 3 (mock_env ?S1) empty_world = Some (Inr (TOKEN_DATA w2), w2) \<and>
        TOKEN_DATA w2 =
          PDict [(''access_token'', PStr ''AT-1''),
                 (''expires'', PNum (1000 + real (length (trace w2)) + 3599)),
                 (''refresh_token'', PStr ''RT-1''), (''token_type'', PStr ''Bearer'')] \<and>
        cache w2 (''youtube-oauth2'', ''token_data'') = Some (TOKEN_DATA w2) \<and>
        requests_to ''https://www.youtube.com/o/oauth2/token'' (trace w2) = []"
    using initialize_oauth_record[where E = "mock_env ?S1" and w = empty_world and script = ?S1
        and rd = device_response and others = "[]" and k = 1
        and pend = "error_response ''authorization_pending''"
        and ts = "[(''access_token'', PStr ''AT-1''), (''expires_in'', PNum 3599),
                   (''refresh_token'', PStr ''RT-1''), (''token_type'', PStr ''Bearer'')]"
        and vu = "PStr ''https://www.google.com/device''" and uc = "PStr ''ABCD-EFGH''"
        and dc = "PStr ''DEV-1''" and iv = "PNum 5" and dl = 5
        and ta = "PStr ''AT-1''" and tx = "PNum 3599" and tsecs = 3599
        and tr = "PStr ''RT-1''" and ttt = "PStr ''Bearer''" and m = 0 and c = "[]",
        OF mono_clock_mock f1, THEN conjunct2, THEN conjunct2, unfolded fuel1]
    by (simp add: mock_env_def script_of_def empty_world_def device_response_def
        error_response_def token_response_ok_def get_token_def cache_load_def)
  have run4: "\<exists>w2. initialize_oauth 3 (mock_env ?S1)
          (cached_world (PDict [(''access_token'', PStr ''AT-0''), (''expires'', PNum 5000)]))
          = Some (Inr (TOKEN_DATA w2), w2) \<and>
        TOKEN_DATA w2 =
          PDict [(''access_token'', PStr ''AT-1''),
                 (''expires'', PNum (1000 + real (length (trace w2)) + 3599)),
                 (''refresh_token'', PStr ''RT-1''), (''token_type'', PStr ''Bearer'')] \<and>
        cache w2 (''youtube-oauth2'', ''token_data'') = Some (TOKEN_DATA w2) \<and>
        requests_to ''https://www.youtube.com/o/oauth2/token'' (trace w2) = []"
    using initialize_oauth_record[where E = "mock_env ?S1"
        and w = "cached_world (PDict [(''access_token'', PStr ''AT-0''), (''expires'', PNum 5000)])"
        and script = ?S1
        and rd = device_response and others = "[]" and k = 1
        and pend = "error_response ''authorization_pending''"
        and ts = "[(''access_token'', PStr ''AT-1''), (''expires_in'', PNum 3599),
                   (''refresh_token'', PStr ''RT-1''), (''token_type'', PStr ''Bearer'')]"
        and vu = "PStr ''https://www.google.com/device''" and uc = "PStr ''ABCD-EFGH''"
        and dc = "PStr ''DEV-1''" and iv = "PNum 5" and dl = 5
        and ta = "PStr ''AT-1''" and tx = "PNum 3599" and tsecs = 3599
        and tr = "PStr ''RT-1''" and ttt = "PStr ''Bearer''" and m = 0
        and c = "[(''access_token'', PStr ''AT-0''), (''expires'', PNum 5000)]",
        OF mono_clock_mock f1, THEN conjunct2, THEN conjunct2, unfolded fuel1]
    by (simp add: mock_env_def script_of_def cached_world_def device_response_def
        error_response_def token_response_ok_def get_token_def cache_load_def)
  have run5: "\<exists>w2. initialize_oauth 2 (mock_env ?S2) (cached_world (stored_record 1030))
          = Some (Inr (TOKEN_DATA w2), w2) \<and>
        TOKEN_DATA w2 =
          PDict [(''access_token'', PStr ''AT-1''),
                 (''expires'', PNum (1000 + real (length (trace w2)) + 3599)),
                 (''refresh_token'', PStr ''RT-1''), (''token_type'', PStr ''Bearer'')] \<and>
        cache w2 (''youtube-oauth2'', ''token_data'') = Some (TOKEN_DATA w2) \<and>
        requests_to ''https://www.youtube.com/o/oauth2/token'' (trace w2) =
          [refresh_request (PStr ''RT-0'')] \<and>
        warnings (trace w2) =
          [''Failed to refresh access token: invalid_grant. Restarting authorization flow'']"
    using initialize_oauth_record[where E = "mock_env ?S2"
        and w = "cached_world (stored_record 1030)" and script = ?S2
        and rd = device_response and others = "[]" and k = 0
        and pend = "error_response ''authorization_pending''"
        and ts = "[(''access_token'', PStr ''AT-1''), (''expires_in'', PNum 3599),
                   (''refresh_token'', PStr ''RT-1''), (''token_type'', PStr ''Bearer'')]"
        and vu = "PStr ''https://www.google.com/device''" and uc = "PStr ''ABCD-EFGH''"
        and dc = "PStr ''DEV-1''" and iv = "PNum 5" and dl = 5
        and ta = "PStr ''AT-1''" and tx = "PNum 3599" and tsecs = 3599
        and tr = "PStr ''RT-1''" and ttt = "PStr ''Bearer''" and m = 0
        and d = "[(''access_token'', PStr ''AT-0''), (''expires'', PNum 1030),
                  (''refresh_token'', PStr ''RT-0''), (''token_type'', PStr ''Bearer'')]"
        and a = "PStr ''AT-0''" and rt = "PStr ''RT-0''" and tt = "PStr ''Bearer''"
        and x = "PNum 1030" and e = 1030 and resp = "error_response ''invalid_grant''",
        OF mono_clock_mock f2, THEN conjunct2, THEN conjunct2, unfolded fuel2]
    by (simp add: mock_env_def script_of_def cached_world_def stored_record_def
        device_response_def error_response_def token_response_ok_def get_token_def
        cache_load_def scripted_def requests_to_Cons)
  have run6: "\<exists>td w2. initialize_oauth 3 (mock_env ?S1) (cached_world (stored_record 1030))
          = Some (Inr td, w2) \<and> good_record 1060 td \<and> TOKEN_DATA w2 = td"
    using initialize_oauth_record[where E = "mock_env ?S1"
        and w = "cached_world (stored_record 1030)" and script = ?S1
        and rd = device_response and others = "[]" and k = 1
        and pend = "error_response ''authorization_pending''"
        and ts = "[(''access_token'', PStr ''AT-1''), (''expires_in'', PNum 3599),
                   (''refresh_token'', PStr ''RT-1''), (''token_type'', PStr ''Bearer'')]"
        and vu = "PStr ''https://www.google.com/device''" and uc = "PStr ''ABCD-EFGH''"
        and dc = "PStr ''DEV-1''" and iv = "PNum 5" and dl = 5
        and ta = "PStr ''AT-1''" and tx = "PNum 3599" and tsecs = 3599
        and tr = "PStr ''RT-1''" and ttt = "PStr ''Bearer''" and m = 0
        and c = "[(''access_token'', PStr ''AT-0''), (''expires'', PNum 1030),
                  (''refresh_token'', PStr ''RT-0''), (''token_type'', PStr ''Bearer'')]"
        and rr = refresh_response_ok and rest = "[]"
        and rs = "[(''access_token'', PStr ''AT-2''), (''expires_in'', PNum 3599),
                   (''token_type'', PStr ''Bearer'')]"
        and ra = "PStr ''AT-2''" and rx = "PNum 3599" and rsecs = 3599 and rtt = "PStr ''Bearer''",
        OF mono_clock_mock f1, THEN conjunct2, THEN conjunct2, unfolded fuel1]
    by (simp add: mock_env_def script_of_def cached_world_def stored_record_def
        device_response_def error_response_def token_response_ok_def refresh_response_ok_def
        get_token_def cache_load_def)
  from m f run1 good1 req1 run2 good2 run3 run4 run5 run6 show ?thesis by (intro conjI)
qed

text \<open>A cached record that has the four fields but whose \<^verbatim>\<open>expires\<close> is a string
  passes \<^verbatim>\<open>validate_token_data\<close>, which only looks for the keys, and the comparison
  of lines 97 to 100 raises \<^verbatim>\<open>TypeError\<close>: no record is returned, although the
  clock is monotone and the server hands out well-formed tokens that live for an
  hour.\<close>

theorem initialize_oauth_string_expires_counterexample:
  "mono_clock (mock_env (script_of [Inr device_response] [Inr token_response_ok]
       [Inr refresh_response_ok]))
   \<and> fresh_tokens (mock_env (script_of [Inr device_response] [Inr token_response_ok]
       [Inr refresh_response_ok]))
   \<and> validate_token_data
        (PDict [(''access_token'', PStr ''AT-0''), (''expires'', PStr ''2000''),
                (''refresh_token'', PStr ''RT-0''), (''token_type'', PStr ''Bearer'')]) = Inr True
   \<and> result_of (initialize_oauth 3
        (mock_env (script_of [Inr device_response] [Inr token_response_ok] [Inr refresh_response_ok]))
        (cached_world
          (PDict [(''access_token'', PStr ''AT-0''), (''expires'', PStr ''2000''),
                  (''refresh_token'', PStr ''RT-0''), (''token_type'', PStr ''Bearer'')])))
     = Some (Inl TypeError)"
proof -
  have "fresh_tokens (mock_env (script_of [Inr device_response] [Inr token_response_ok]
       [Inr refresh_response_ok]))"
    by (rule fresh_tokens_mock)
       (auto simp: script_of_def device_response_def token_response_ok_def
          refresh_response_ok_def split: if_splits)
  moreover have "result_of (initialize_oauth 3
        (mock_env (script_of [Inr device_response] [Inr token_response_ok] [Inr refresh_response_ok]))
        (cached_world
          (PDict [(''access_token'', PStr ''AT-0''), (''expires'', PStr ''2000''),
                  (''refresh_token'', PStr ''RT-0''), (''token_type'', PStr ''Bearer'')])))
     = Some (Inl TypeError)"
    by (simp add: result_of_def initialize_oauth_def check_cached_def authorize_if_missing_def
        refresh_if_expiring_def validate_token_data_def get_token_def cache_load_def py_less_def
        cached_world_def)
  ultimately show ?thesis
    by (simp add: mono_clock_mock validate_token_data_def)
qed

end
